theory Spec2Isabelle
  imports Main "HOL-Library.Multiset"
begin

section \<open>Strings of the JavaScript runtime\<close>

text \<open>
  A JavaScript string is a sequence of UTF-16 code units. The names and payloads of the
  attendance pages are modelled as lists of code units, so that a name such as JOSE with an
  acute accent on the E (code unit 201) has length four, as it has in the browser.
  \<open>js\<close> turns an ASCII literal into such a string.
\<close>

type_synonym jsstring = "nat list"

definition js :: "string \<Rightarrow> jsstring" where
  "js s = map of_char s"

text \<open>
  \<open>String.prototype.trim\<close> removes the WhiteSpace and LineTerminator code points of
  ECMAScript from both ends: TAB, LF, VT, FF, CR, SPACE, NBSP, U+1680, U+2000 to U+200A,
  U+2028, U+2029, U+202F, U+205F, U+3000 and U+FEFF.
\<close>

definition isWhiteSpace :: "nat \<Rightarrow> bool" where
  "isWhiteSpace c =
     ((9 \<le> c \<and> c \<le> 13) \<or> c = 32 \<or> c = 160 \<or> c = 5760 \<or> (8192 \<le> c \<and> c \<le> 8202)
      \<or> c = 8232 \<or> c = 8233 \<or> c = 8239 \<or> c = 8287 \<or> c = 12288 \<or> c = 65279)"

definition trim :: "jsstring \<Rightarrow> jsstring" where
  "trim s = rev (dropWhile isWhiteSpace (rev (dropWhile isWhiteSpace s)))"

subsection \<open>The comparison used for names\<close>

text \<open>
  \<open>addEntry\<close> tests \<open>e.name.localeCompare(name, undefined, { sensitivity: "accent" }) === 0\<close>.
  The collator is the platform's (ECMA-402, in the default locale of the browser), not code
  of the repository, and it is a parameter \<open>coll\<close> of the model: what the collator makes of
  a string, namely its base letters, its accents and other diacritic marks, and its case,
  in this order (the primary, secondary and tertiary level of Unicode collation). At
  sensitivity "accent" two strings compare as equal when they agree in base letters and
  in accents (a \<noteq> b, a \<noteq> a-acute, a = A); the case is not looked at.
\<close>

type_synonym collator = "jsstring \<Rightarrow> nat list \<times> nat list \<times> nat list"

definition localeCompare_accent_zero :: "collator \<Rightarrow> jsstring \<Rightarrow> jsstring \<Rightarrow> bool" where
  "localeCompare_accent_zero coll a b =
     (fst (coll a) = fst (coll b) \<and> fst (snd (coll a)) = fst (snd (coll b)))"

text \<open>
  The comparison in the words of the specification, for comparison with the one above: it
  ignores case and accents, so it compares base letters only (sensitivity "base").
\<close>

definition spec_case_accent_insensitive_equal :: "collator \<Rightarrow> jsstring \<Rightarrow> jsstring \<Rightarrow> bool" where
  "spec_case_accent_insensitive_equal coll a b = (fst (coll a) = fst (coll b))"

text \<open>
  A collator for the examples. It reads a string code unit by code unit: \<open>foldCase\<close> sends
  the capital letters A to Z and the Latin-1 capitals (192 to 222 except the multiplication
  sign 215) to their small letters, \<open>baseLetter\<close> sends a small Latin-1 letter with a grave,
  acute, circumflex, tilde, diaeresis, ring or cedilla to its base letter. On the names of
  the examples (Jose, JOSE, JOSE with an acute accent, Ann, Bob and the like) and on the
  scanned texts of the examples it tells base letters, accents and case apart as the
  collators of the platform do; it stands for them only there.
\<close>

definition foldCase :: "nat \<Rightarrow> nat" where
  "foldCase c = (if (65 \<le> c \<and> c \<le> 90) \<or> (192 \<le> c \<and> c \<le> 222 \<and> c \<noteq> 215) then c + 32 else c)"

definition baseLetter :: "nat \<Rightarrow> nat" where
  "baseLetter c =
     (if 224 \<le> c \<and> c \<le> 229 then 97
      else if c = 231 then 99
      else if 232 \<le> c \<and> c \<le> 235 then 101
      else if 236 \<le> c \<and> c \<le> 239 then 105
      else if c = 241 then 110
      else if 242 \<le> c \<and> c \<le> 246 then 111
      else if 249 \<le> c \<and> c \<le> 252 then 117
      else if c = 253 \<or> c = 255 then 121
      else c)"

definition sampleCollator :: collator where
  "sampleCollator s =
     (map (baseLetter \<circ> foldCase) s,
      map (\<lambda>c. if baseLetter (foldCase c) = foldCase c then 0 else foldCase c) s,
      map (\<lambda>c. if foldCase c = c then 0 else 1) s)"

section \<open>The attendance ledger\<close>

text \<open>
  \<open>type AttendanceEntry = { name: string; deviceId: string; timestamp: string }\<close>.
  The timestamp is \<open>new Date().toISOString()\<close>; the model keeps the instant itself
  (milliseconds since the epoch). The ISO rendering has a fixed width for the years 0 to
  9999, so comparing two renderings orders them as their instants.
\<close>

record AttendanceEntry =
  name :: jsstring
  deviceId :: jsstring
  timestamp :: nat

datatype outcome =
    Accepted
  | Rejected_DuplicateName
  | Rejected_InvalidName
  | Rejected_NoName
  | Rejected_DuplicateDevice
  | Rejected_NoDeviceId
  | Unauthorized_locked
  | Unauthorized_already_checked_in
  | SelfConfirmed
  | Discarded_debounce
  | Ignored_blank
  | Threw_TypeError

text \<open>
  \<open>addEntry\<close> (the same text in both name-keyed pages): trim; return on an empty name;
  return when some entry's name compares equal; otherwise put the new entry, stamped with
  the page's own device id, in front of the list. The function returns nothing in the
  source; the model returns the branch taken and the new list.
\<close>

definition addEntry ::
  "collator \<Rightarrow> jsstring \<Rightarrow> nat \<Rightarrow> jsstring \<Rightarrow> AttendanceEntry list \<Rightarrow> outcome \<times> AttendanceEntry list" where
  "addEntry coll deviceIdRef now nameRaw entries =
     (let nm = trim nameRaw in
      if nm = [] then (Rejected_InvalidName, entries)
      else if list_ex (\<lambda>e. localeCompare_accent_zero coll (name e) nm) entries
        then (Rejected_DuplicateName, entries)
      else (Accepted, \<lparr>name = nm, deviceId = deviceIdRef, timestamp = now\<rparr> # entries))"

subsection \<open>Presentation order\<close>

text \<open>
  \<open>[...entries].sort((a, b) => b.timestamp.localeCompare(a.timestamp))\<close>.
  \<open>Array.prototype.sort\<close> is stable (ECMAScript 2019); a stable sort is determined by
  its comparator, and is modelled by insertion from the right, which places an element
  before the first element it does not exceed.
\<close>

definition compareInstants :: "nat \<Rightarrow> nat \<Rightarrow> int" where
  "compareInstants a b = (if a < b then - 1 else if a = b then 0 else 1)"

fun insertBy :: "('a \<Rightarrow> 'a \<Rightarrow> int) \<Rightarrow> 'a \<Rightarrow> 'a list \<Rightarrow> 'a list" where
  "insertBy cmp x [] = [x]"
| "insertBy cmp x (y # ys) = (if cmp x y \<le> 0 then x # y # ys else y # insertBy cmp x ys)"

definition Array_sort :: "('a \<Rightarrow> 'a \<Rightarrow> int) \<Rightarrow> 'a list \<Rightarrow> 'a list" where
  "Array_sort cmp xs = foldr (insertBy cmp) xs []"

definition sortedEntries :: "AttendanceEntry list \<Rightarrow> AttendanceEntry list" where
  "sortedEntries entries =
     Array_sort (\<lambda>a b. compareInstants (timestamp b) (timestamp a)) entries"

section \<open>JSON values\<close>

text \<open>
  \<open>JSON.parse\<close> is the platform's; the pages only look at fields of the value it
  returns. A parsed value is modelled by \<open>json\<close>, an object by its own properties in
  enumeration order. The parser itself is a parameter \<open>JSON_parse\<close> of the functions that
  call it, \<open>None\<close> standing for the SyntaxError it throws. A number is kept as what
  the pages can observe of it: whether it is not zero (its truthiness) and the text that
  \<open>String\<close> gives for it.
\<close>

datatype json = JNull | JBool bool | JNum bool jsstring | JStr jsstring | JArr "json list"
  | JObj "(jsstring \<times> json) list"

fun truthy :: "json \<Rightarrow> bool" where
  "truthy JNull = False"
| "truthy (JBool b) = b"
| "truthy (JNum nonzero txt) = nonzero"
| "truthy (JStr s) = (s \<noteq> [])"
| "truthy (JArr xs) = True"
| "truthy (JObj kvs) = True"

text \<open>
  Reading a field by name, \<open>parsed[key]\<close> or \<open>parsed.key\<close>, and
  \<open>hasOwnProperty\<close>: an object answers with its own property; an array, a string, a number
  or a boolean has none of the names the pages ask for (their own properties are indices
  and \<open>length\<close>).
\<close>

fun ownField :: "json \<Rightarrow> jsstring \<Rightarrow> json option" where
  "ownField (JObj kvs) k = map_of kvs k"
| "ownField v k = None"

fun decimal :: "nat \<Rightarrow> jsstring" where
  "decimal n = (if n < 10 then [48 + n] else decimal (n div 10) @ [48 + n mod 10])"

fun join :: "jsstring \<Rightarrow> jsstring list \<Rightarrow> jsstring" where
  "join sep [] = []"
| "join sep [x] = x"
| "join sep (x # y # ys) = x @ sep @ join sep (y # ys)"

text \<open>
  \<open>String(value)\<close> on a parsed value; \<open>None\<close> is the TypeError it throws. An object
  without a field \<open>toString\<close> of its own is rendered by \<open>Object.prototype.toString\<close>; with
  such a field (never a function in parsed JSON) neither \<open>toString\<close> nor \<open>valueOf\<close> yields
  a primitive and the conversion throws. An array joins the renderings of its elements
  with commas, \<open>null\<close> rendered as the empty string.
\<close>

fun String_of :: "json \<Rightarrow> jsstring option"
  and String_elements :: "json list \<Rightarrow> jsstring list option" where
  "String_of JNull = Some (js ''null'')"
| "String_of (JBool b) = Some (if b then js ''true'' else js ''false'')"
| "String_of (JNum nonzero txt) = Some txt"
| "String_of (JStr s) = Some s"
| "String_of (JArr xs) =
     (case String_elements xs of None \<Rightarrow> None | Some ts \<Rightarrow> Some (join [44] ts))"
| "String_of (JObj kvs) =
     (if map_of kvs (js ''toString'') = None then Some (js ''[object Object]'') else None)"
| "String_elements [] = Some []"
| "String_elements (x # xs) =
     (case (if x = JNull then Some [] else String_of x) of
        None \<Rightarrow> None
      | Some t \<Rightarrow> (case String_elements xs of None \<Rightarrow> None | Some ts \<Rightarrow> Some (t # ts)))"

fun Object_entries :: "json \<Rightarrow> (jsstring \<times> json) list" where
  "Object_entries (JObj kvs) = kvs"
| "Object_entries (JArr xs) = zip (map decimal [0..<length xs]) xs"
| "Object_entries (JStr s) = zip (map decimal [0..<length s]) (map (\<lambda>c. JStr [c]) s)"
| "Object_entries v = []"

text \<open>
  A parser for the examples: it gives the value of \<open>JSON.parse\<close> at the three payloads
  below and rejects every other text, as \<open>JSON.parse\<close> rejects the plain names that the
  examples scan.
\<close>

definition sampleParse :: "jsstring \<Rightarrow> json option" where
  \<open>sampleParse text =
     (if text = js ''{"name":"Ann","deviceId":"d1"}''
        then Some (JObj [(js ''name'', JStr (js ''Ann'')), (js ''deviceId'', JStr (js ''d1''))])
      else if text = js ''{"firstName":"Ann","lastName":"Lee"}''
        then Some (JObj [(js ''firstName'', JStr (js ''Ann'')), (js ''lastName'', JStr (js ''Lee''))])
      else if text = js ''{"name":"Bob","deviceId":" scanner-1 "}''
        then Some (JObj [(js ''name'', JStr (js ''Bob'')), (js ''deviceId'', JStr (js '' scanner-1 ''))])
      else None)\<close>

section \<open>The scan-log page\<close>

text \<open>The first page of part 002: a log of scanned device ids.\<close>

record QrPayload =
  qr_deviceId :: jsstring
  qr_name :: "jsstring option"
  qr_metadata :: "json option"

definition nameCandidateKeys :: "jsstring list" where
  "nameCandidateKeys = map js [''name'', ''fullName'', ''studentName'', ''student_name'',
     ''ownerName'', ''owner'', ''userName'', ''username'', ''firstName'', ''lastName'']"

definition candidateKeys :: "jsstring list" where
  "candidateKeys = map js [''deviceId'', ''deviceID'', ''device_id'', ''id'', ''device'']"

text \<open>The loop over \<open>nameCandidateKeys\<close>: the first key present whose value is a string
  that is not blank gives the name, trimmed.\<close>

fun nameLoop :: "json \<Rightarrow> jsstring list \<Rightarrow> jsstring option" where
  "nameLoop parsed [] = None"
| "nameLoop parsed (key # keys) =
     (case ownField parsed key of
        Some (JStr v) \<Rightarrow> if trim v \<noteq> [] then Some (trim v) else nameLoop parsed keys
      | _ \<Rightarrow> nameLoop parsed keys)"

text \<open>\<open>// Combine firstName + lastName if available\<close>, run when the loop found no name.\<close>

definition combineFirstLast :: "json \<Rightarrow> jsstring option" where
  "combineFirstLast parsed =
     (case (ownField parsed (js ''firstName''), ownField parsed (js ''lastName'')) of
        (Some (JStr firstV), Some (JStr lastV)) \<Rightarrow>
           (let combo = trim (firstV @ [32] @ lastV) in if combo \<noteq> [] then Some combo else None)
      | _ \<Rightarrow> None)"

definition extractedName :: "json \<Rightarrow> jsstring option" where
  "extractedName parsed =
     (case nameLoop parsed nameCandidateKeys of
        Some n \<Rightarrow> Some n
      | None \<Rightarrow> combineFirstLast parsed)"

text \<open>The loop over \<open>candidateKeys\<close>: a string that is not blank, or the \<open>id\<close> of a
  nested object, rendered by \<open>String\<close>, which may throw.\<close>

datatype search = Found jsstring | NotFound | TypeError_thrown

fun deviceIdLoop :: "json \<Rightarrow> jsstring list \<Rightarrow> search" where
  "deviceIdLoop parsed [] = NotFound"
| "deviceIdLoop parsed (key # keys) =
     (case ownField parsed key of
        None \<Rightarrow> deviceIdLoop parsed keys
      | Some (JStr v) \<Rightarrow> if trim v \<noteq> [] then Found (trim v) else deviceIdLoop parsed keys
      | Some (JObj kvs) \<Rightarrow>
          (case map_of kvs (js ''id'') of
             None \<Rightarrow> deviceIdLoop parsed keys
           | Some i \<Rightarrow>
               if truthy i then
                 (case String_of i of
                    None \<Rightarrow> TypeError_thrown
                  | Some nested \<Rightarrow>
                      if trim nested \<noteq> [] then Found (trim nested)
                      else deviceIdLoop parsed keys)
               else deviceIdLoop parsed keys)
      | Some v \<Rightarrow> deviceIdLoop parsed keys)"

text \<open>\<open>/id/i.test(key)\<close>: the key contains i or I followed by d or D.\<close>

fun looksLikeId :: "jsstring \<Rightarrow> bool" where
  "looksLikeId (a # b # rest) =
     (((a = 105 \<or> a = 73) \<and> (b = 100 \<or> b = 68)) \<or> looksLikeId (b # rest))"
| "looksLikeId rest = False"

fun idFieldLoop :: "(jsstring \<times> json) list \<Rightarrow> jsstring option" where
  "idFieldLoop [] = None"
| "idFieldLoop ((key, JStr v) # rest) =
     (if looksLikeId key \<and> trim v \<noteq> [] then Some (trim v) else idFieldLoop rest)"
| "idFieldLoop ((key, v) # rest) = idFieldLoop rest"

text \<open>
  \<open>parseDeviceIdFromQrPayload\<close>. A payload that is not JSON goes to the \<open>catch\<close>;
  so do the payload \<open>null\<close>, on which \<open>hasOwnProperty.call\<close> throws, and a payload
  whose nested \<open>id\<close> cannot be rendered.
\<close>

definition parseDeviceIdFromQrPayload :: "(jsstring \<Rightarrow> json option) \<Rightarrow> jsstring \<Rightarrow> QrPayload" where
  "parseDeviceIdFromQrPayload JSON_parse payload =
     (let trimmed = trim payload in
      case JSON_parse trimmed of
        None \<Rightarrow> \<lparr>qr_deviceId = trimmed, qr_name = None, qr_metadata = None\<rparr>
      | Some JNull \<Rightarrow> \<lparr>qr_deviceId = trimmed, qr_name = None, qr_metadata = None\<rparr>
      | Some parsed \<Rightarrow>
          (case deviceIdLoop parsed candidateKeys of
             TypeError_thrown \<Rightarrow> \<lparr>qr_deviceId = trimmed, qr_name = None, qr_metadata = None\<rparr>
           | Found d \<Rightarrow> \<lparr>qr_deviceId = d, qr_name = extractedName parsed, qr_metadata = Some parsed\<rparr>
           | NotFound \<Rightarrow>
              (case idFieldLoop (Object_entries parsed) of
                 Some d \<Rightarrow>
                   \<lparr>qr_deviceId = d, qr_name = extractedName parsed, qr_metadata = Some parsed\<rparr>
               | None \<Rightarrow>
                   \<lparr>qr_deviceId = trimmed, qr_name = extractedName parsed,
                    qr_metadata = Some parsed\<rparr>)))"

record ScannedItem =
  item_deviceId :: jsstring
  rawData :: jsstring
  item_name :: "jsstring option"
  metadata :: "json option"
  scannedAt :: nat

record ScanLogPage =
  scannedItems :: "ScannedItem list"
  isScanning :: bool
  statusMessage :: jsstring
  lastRawRef :: jsstring
  lastTimeRef :: nat

definition initialScanLog :: ScanLogPage where
  "initialScanLog = \<lparr>scannedItems = [], isScanning = True,
     statusMessage = js ''Align a QR code within the frame'', lastRawRef = [], lastTimeRef = 0\<rparr>"

text \<open>
  \<open>handleDecoded\<close>; \<open>now\<close> is \<open>Date.now()\<close>. The debounce compares the text with the
  last text that was let through and the clock with the time it was let through.
\<close>

definition handleDecoded ::
  "(jsstring \<Rightarrow> json option) \<Rightarrow> nat \<Rightarrow> jsstring \<Rightarrow> ScanLogPage \<Rightarrow> outcome \<times> ScanLogPage" where
  "handleDecoded JSON_parse now decodedText s =
     (if lastRawRef s = decodedText \<and> int now - int (lastTimeRef s) < 1500
      then (Discarded_debounce, s)
      else
        (let s1 = s\<lparr>lastRawRef := decodedText, lastTimeRef := now\<rparr>;
             p = parseDeviceIdFromQrPayload JSON_parse decodedText in
         if qr_deviceId p = []
           then (Rejected_NoDeviceId, s1\<lparr>statusMessage := js ''No device id found in QR''\<rparr>)
         else if qr_deviceId p \<in> set (map item_deviceId (scannedItems s))
           then (Rejected_DuplicateDevice,
                 s1\<lparr>statusMessage := js ''Duplicate ignored: '' @ qr_deviceId p\<rparr>)
         else (Accepted,
               s1\<lparr>scannedItems :=
                     \<lparr>item_deviceId = qr_deviceId p, rawData = decodedText,
                      item_name = qr_name p, metadata = qr_metadata p, scannedAt = now\<rparr>
                     # scannedItems s,
                   statusMessage := js ''Saved: '' @ qr_deviceId p\<rparr>)))"

section \<open>The attendance pages\<close>

subsection \<open>Browser storage, device identity, timers\<close>

text \<open>
  The three keys of \<open>localStorage\<close> that the pages use. The list is stored as JSON and
  read back as written; a missing or unreadable value reads as the empty list.
\<close>

record LocalStorage =
  ls_attendance :: "AttendanceEntry list option"
  ls_deviceId :: "jsstring option"
  ls_selfAttempted :: "jsstring option"

definition emptyStorage :: LocalStorage where
  "emptyStorage = \<lparr>ls_attendance = None, ls_deviceId = None, ls_selfAttempted = None\<rparr>"

definition readAttendance :: "LocalStorage \<Rightarrow> AttendanceEntry list" where
  "readAttendance ls = (case ls_attendance ls of None \<Rightarrow> [] | Some es \<Rightarrow> es)"

definition writeAttendance :: "AttendanceEntry list \<Rightarrow> LocalStorage \<Rightarrow> LocalStorage" where
  "writeAttendance es ls = ls\<lparr>ls_attendance := Some es\<rparr>"

text \<open>\<open>getOrCreateDeviceId\<close> in the browser; \<open>fresh\<close> is what \<open>crypto.randomUUID()\<close>
  (or the fallback) would return.\<close>

definition getOrCreateDeviceId :: "jsstring \<Rightarrow> LocalStorage \<Rightarrow> jsstring \<times> LocalStorage" where
  "getOrCreateDeviceId fresh ls =
     (case ls_deviceId ls of
        Some d \<Rightarrow> if d \<noteq> [] then (d, ls) else (fresh, ls\<lparr>ls_deviceId := Some fresh\<rparr>)
      | None \<Rightarrow> (fresh, ls\<lparr>ls_deviceId := Some fresh\<rparr>))"

text \<open>
  The state of the page of part 001: its \<open>useState\<close> cells and its ref, the storage, and
  the due times of the pending \<open>setTimeout(() => setJustScanned(false), 1200)\<close> calls.
  Handlers run one at a time; a timeout runs as soon as it is due, before any later event.
\<close>

record Page =
  entries :: "AttendanceEntry list"
  manualName :: jsstring
  scanError :: "jsstring option"
  infoMessage :: "jsstring option"
  justScanned :: bool
  deviceIdRef :: jsstring
  storage :: LocalStorage
  timers :: "nat list"

definition fireTimers :: "nat \<Rightarrow> 'a Page_scheme \<Rightarrow> 'a Page_scheme" where
  "fireTimers now s =
     (if list_ex (\<lambda>due. due \<le> now) (timers s)
      then s\<lparr>justScanned := False, timers := filter (\<lambda>due. now < due) (timers s)\<rparr>
      else s)"

text \<open>The first lines of both \<open>handleDecode\<close>s after the debounce test.\<close>

definition beginScan :: "nat \<Rightarrow> 'a Page_scheme \<Rightarrow> 'a Page_scheme" where
  "beginScan now s =
     s\<lparr>justScanned := True, timers := (now + 1200) # timers s,
       scanError := None, infoMessage := None\<rparr>"

text \<open>\<open>addEntry\<close> on the page: \<open>setEntries(updated); writeAttendance(updated)\<close>.\<close>

definition addEntryPage :: "collator \<Rightarrow> nat \<Rightarrow> jsstring \<Rightarrow> 'a Page_scheme \<Rightarrow> outcome \<times> 'a Page_scheme" where
  "addEntryPage coll now nameRaw s =
     (case addEntry coll (deviceIdRef s) now nameRaw (entries s) of
        (out, updated) \<Rightarrow>
          if out = Accepted
          then (out, s\<lparr>entries := updated, storage := writeAttendance updated (storage s)\<rparr>)
          else (out, s))"

subsection \<open>The page of part 001: organizer page without lock\<close>

definition initialPage_p1 :: "LocalStorage \<Rightarrow> Page" where
  "initialPage_p1 ls = \<lparr>entries = [], manualName = [], scanError = None, infoMessage = None,
     justScanned = False, deviceIdRef = [], storage = ls, timers = []\<rparr>"

definition mountEffect_p1 :: "jsstring \<Rightarrow> Page \<Rightarrow> Page" where
  "mountEffect_p1 fresh s =
     (case getOrCreateDeviceId fresh (storage s) of
        (d, ls) \<Rightarrow> s\<lparr>deviceIdRef := d, storage := ls, entries := readAttendance ls\<rparr>)"

definition mounted_p1 :: "jsstring \<Rightarrow> LocalStorage \<Rightarrow> Page" where
  "mounted_p1 fresh ls = mountEffect_p1 fresh (initialPage_p1 ls)"

text \<open>
  \<open>(parsed && parsed.key ? parsed.key : "").trim()\<close>: \<open>None\<close> when the field is truthy
  and not a string, where \<open>.trim\<close> is not a function and the handler throws.
\<close>

definition incoming :: "json \<Rightarrow> jsstring \<Rightarrow> jsstring option" where
  "incoming parsed key =
     (if truthy parsed then
        (case ownField parsed key of
           None \<Rightarrow> Some []
         | Some v \<Rightarrow>
             if truthy v then (case v of JStr str \<Rightarrow> Some (trim str) | _ \<Rightarrow> None)
             else Some [])
      else Some [])"

text \<open>\<open>try { parsed = JSON.parse(result) } catch { parsed = { name: result } }\<close>.\<close>

definition scannedObject :: "(jsstring \<Rightarrow> json option) \<Rightarrow> jsstring \<Rightarrow> json" where
  "scannedObject JSON_parse result =
     (case JSON_parse result of
        None \<Rightarrow> JObj [(js ''name'', JStr result)]
      | Some v \<Rightarrow> v)"

definition handleDecode_p1 ::
  "collator \<Rightarrow> (jsstring \<Rightarrow> json option) \<Rightarrow> nat \<Rightarrow> jsstring \<Rightarrow> Page \<Rightarrow> outcome \<times> Page" where
  "handleDecode_p1 coll JSON_parse now result s =
     (if justScanned s then (Discarded_debounce, s)
      else
        (let s1 = beginScan now s;
             parsed = scannedObject JSON_parse result in
         case incoming parsed (js ''name'') of
           None \<Rightarrow> (Threw_TypeError, s1)
         | Some incomingName \<Rightarrow>
            (case incoming parsed (js ''deviceId'') of
               None \<Rightarrow> (Threw_TypeError, s1)
             | Some incomingDeviceId \<Rightarrow>
                 if incomingName = []
                   then (Rejected_NoName,
                         s1\<lparr>scanError := Some (js ''QR does not contain a valid name.'')\<rparr>)
                 else if incomingDeviceId \<noteq> []
                         \<and> list_ex (\<lambda>e. deviceId e = incomingDeviceId) (entries s)
                   then (Rejected_DuplicateDevice,
                         s1\<lparr>scanError := Some (js ''This device has already checked in.'')\<rparr>)
                 else addEntryPage coll now incomingName s1)))"

definition handleManualAdd_p1 :: "collator \<Rightarrow> nat \<Rightarrow> Page \<Rightarrow> outcome \<times> Page" where
  "handleManualAdd_p1 coll now s =
     (if trim (manualName s) = [] then (Ignored_blank, s)
      else (case addEntryPage coll now (manualName s) s of
              (out, s1) \<Rightarrow> (out, s1\<lparr>manualName := []\<rparr>)))"

text \<open>\<open>clearAll\<close> of part 001 removes the list and the device id, creates a fresh id
  and writes the empty list.\<close>

definition clearAll_p1 :: "jsstring \<Rightarrow> Page \<Rightarrow> Page" where
  "clearAll_p1 fresh s =
     (case getOrCreateDeviceId fresh ((storage s)\<lparr>ls_attendance := None, ls_deviceId := None\<rparr>) of
        (d, ls) \<Rightarrow>
          s\<lparr>entries := [], deviceIdRef := d, manualName := [], scanError := None,
            infoMessage := None, storage := writeAttendance [] ls\<rparr>)"

text \<open>
  What can happen to the page: a decoded QR text (\<open>onScan\<close> passes on a text that is not
  empty), typing in the name field, the Add and Clear buttons, and a reload of the page,
  which mounts a new page on the storage as it is. Each event comes with the clock.
\<close>

datatype event_p1 =
    Scan1 jsstring
  | TypeName1 jsstring
  | ClickAdd1
  | ClickClear1 jsstring
  | Reload1 jsstring

fun deliver_p1 :: "collator \<Rightarrow> (jsstring \<Rightarrow> json option) \<Rightarrow> nat \<times> event_p1 \<Rightarrow> Page \<Rightarrow> Page" where
  "deliver_p1 coll JSON_parse (now, Scan1 v) s =
     (if v \<noteq> [] then snd (handleDecode_p1 coll JSON_parse now v (fireTimers now s))
      else fireTimers now s)"
| "deliver_p1 coll JSON_parse (now, TypeName1 v) s = (fireTimers now s)\<lparr>manualName := v\<rparr>"
| "deliver_p1 coll JSON_parse (now, ClickAdd1) s = snd (handleManualAdd_p1 coll now (fireTimers now s))"
| "deliver_p1 coll JSON_parse (now, ClickClear1 fresh) s = clearAll_p1 fresh (fireTimers now s)"
| "deliver_p1 coll JSON_parse (now, Reload1 fresh) s = mounted_p1 fresh (storage s)"

definition run_p1 ::
  "collator \<Rightarrow> (jsstring \<Rightarrow> json option) \<Rightarrow> (nat \<times> event_p1) list \<Rightarrow> Page \<Rightarrow> Page" where
  "run_p1 coll JSON_parse evs s = foldl (\<lambda>st ev. deliver_p1 coll JSON_parse ev st) s evs"

subsection \<open>The second page of part 002: modes, self check-in, organizer lock\<close>

datatype Mode = Scanner | Self

record LockPage = Page +
  mode :: Mode
  selfAttempted :: bool
  organizerUnlocked :: bool
  pinInput :: jsstring
  unlockError :: "jsstring option"

text \<open>\<open>process.env.NEXT_PUBLIC_ORG_PIN ?? "1234"\<close>.\<close>

definition ORGANIZER_PIN :: "jsstring option \<Rightarrow> jsstring" where
  "ORGANIZER_PIN env = (case env of None \<Rightarrow> js ''1234'' | Some p \<Rightarrow> p)"

text \<open>The values of the \<open>useState\<close> calls: the first render.\<close>

definition initialPage_p2 :: "LocalStorage \<Rightarrow> LockPage" where
  "initialPage_p2 ls = \<lparr>entries = [], manualName = [], scanError = None, infoMessage = None,
     justScanned = False, deviceIdRef = [], storage = ls, timers = [],
     mode = Scanner, selfAttempted = False, organizerUnlocked = False, pinInput = [],
     unlockError = None\<rparr>"

definition mountEffect_p2 :: "jsstring \<Rightarrow> LockPage \<Rightarrow> LockPage" where
  "mountEffect_p2 fresh s =
     (case getOrCreateDeviceId fresh (storage s) of
        (d, ls) \<Rightarrow>
          s\<lparr>deviceIdRef := d, storage := ls, entries := readAttendance ls,
            selfAttempted := (ls_selfAttempted ls = Some (js ''true''))\<rparr>)"

text \<open>\<open>// Force self mode when organizer lock is engaged\<close>: the effect that runs after
  a render in which the lock or the mode changed.\<close>

definition forceSelfEffect :: "LockPage \<Rightarrow> LockPage" where
  "forceSelfEffect s = (if \<not> organizerUnlocked s \<and> mode s = Scanner then s\<lparr>mode := Self\<rparr> else s)"

definition mounted_p2 :: "jsstring \<Rightarrow> LocalStorage \<Rightarrow> LockPage" where
  "mounted_p2 fresh ls = forceSelfEffect (mountEffect_p2 fresh (initialPage_p2 ls))"

definition handleDecode_p2 :: "collator \<Rightarrow> nat \<Rightarrow> jsstring \<Rightarrow> LockPage \<Rightarrow> outcome \<times> LockPage" where
  "handleDecode_p2 coll now result s =
     (if justScanned s then (Discarded_debounce, s)
      else
        (let s1 = beginScan now s in
         if mode s = Self then
           (if selfAttempted s
            then (Unauthorized_already_checked_in,
                  s1\<lparr>scanError := Some (js ''You have already checked in from this device.'')\<rparr>)
            else (SelfConfirmed,
                  s1\<lparr>storage := (storage s1)\<lparr>ls_selfAttempted := Some (js ''true'')\<rparr>,
                     selfAttempted := True,
                     infoMessage := Some (js
                       ''Check-in recorded on this device. Please show your QR to the organizer.'')\<rparr>))
         else if \<not> organizerUnlocked s
           then (Unauthorized_locked,
                 s1\<lparr>scanError :=
                      Some (js ''Organizer lock is enabled. Unlock to save attendance.'')\<rparr>)
         else addEntryPage coll now result s1))"

definition handleManualAdd_p2 :: "collator \<Rightarrow> nat \<Rightarrow> LockPage \<Rightarrow> outcome \<times> LockPage" where
  "handleManualAdd_p2 coll now s =
     (if trim (manualName s) = [] then (Ignored_blank, s)
      else if \<not> organizerUnlocked s
        then (Unauthorized_locked,
              s\<lparr>scanError := Some (js ''Organizer lock is enabled. Unlock to save attendance.'')\<rparr>)
      else (case addEntryPage coll now (manualName s) s of
              (out, s1) \<Rightarrow> (out, s1\<lparr>manualName := []\<rparr>)))"

text \<open>The Unlock button.\<close>

definition unlock :: "jsstring option \<Rightarrow> LockPage \<Rightarrow> LockPage" where
  "unlock env s =
     (if pinInput s = ORGANIZER_PIN env
      then s\<lparr>organizerUnlocked := True, unlockError := None\<rparr>
      else s\<lparr>unlockError := Some (js ''Invalid PIN'')\<rparr>)"

definition clearAll_p2 :: "LockPage \<Rightarrow> LockPage" where
  "clearAll_p2 s = s\<lparr>entries := [], storage := writeAttendance [] (storage s)\<rparr>"

text \<open>
  The events of this page. The handlers are modelled as written, also where the page
  shows the control disabled. The mode-forcing effect is applied after every event: it
  depends on the lock and the mode only, and it changes nothing in a state where the lock
  is open or the mode is \<open>self\<close>, so this is the same as running it after the renders in
  which one of the two changed.
\<close>

datatype event_p2 =
    Scan jsstring
  | TypeName jsstring
  | ClickAdd
  | TypePin jsstring
  | ClickUnlock
  | SelectMode Mode
  | ClickClear
  | Reload jsstring

fun handle_p2 :: "collator \<Rightarrow> jsstring option \<Rightarrow> nat \<Rightarrow> event_p2 \<Rightarrow> LockPage \<Rightarrow> LockPage" where
  "handle_p2 coll env now (Scan v) s = (if v \<noteq> [] then snd (handleDecode_p2 coll now v s) else s)"
| "handle_p2 coll env now (TypeName v) s = s\<lparr>manualName := v\<rparr>"
| "handle_p2 coll env now ClickAdd s = snd (handleManualAdd_p2 coll now s)"
| "handle_p2 coll env now (TypePin v) s = s\<lparr>pinInput := v\<rparr>"
| "handle_p2 coll env now ClickUnlock s = unlock env s"
| "handle_p2 coll env now (SelectMode m) s = s\<lparr>mode := m\<rparr>"
| "handle_p2 coll env now ClickClear s = clearAll_p2 s"
| "handle_p2 coll env now (Reload fresh) s = mountEffect_p2 fresh (initialPage_p2 (storage s))"

definition deliver_p2 :: "collator \<Rightarrow> jsstring option \<Rightarrow> nat \<times> event_p2 \<Rightarrow> LockPage \<Rightarrow> LockPage" where
  "deliver_p2 coll env ev s = forceSelfEffect (handle_p2 coll env (fst ev) (snd ev) (fireTimers (fst ev) s))"

definition run_p2 :: "collator \<Rightarrow> jsstring option \<Rightarrow> (nat \<times> event_p2) list \<Rightarrow> LockPage \<Rightarrow> LockPage" where
  "run_p2 coll env evs s = foldl (\<lambda>st ev. deliver_p2 coll env ev st) s evs"

subsection \<open>Predicates on page states\<close>

text \<open>A pending timeout exists exactly while \<open>justScanned\<close> is set, and then only one.\<close>

definition debounceInv :: "'a Page_scheme \<Rightarrow> bool" where
  "debounceInv s = (if justScanned s then length (timers s) = 1 else timers s = [])"

text \<open>
  The organizer's flow on a fresh page: type the PIN, unlock, select scanner mode, scan a
  text; and a manual entry after it: type a name, press Add (its outcome and the page
  after it).
\<close>

definition organizerScan ::
  "collator \<Rightarrow> jsstring option \<Rightarrow> nat \<Rightarrow> nat \<Rightarrow> nat \<Rightarrow> nat \<Rightarrow> jsstring \<Rightarrow> jsstring \<Rightarrow> LockPage" where
  "organizerScan coll env t1 t2 t3 t4 fresh raw =
     run_p2 coll env [(t1, TypePin (ORGANIZER_PIN env)), (t2, ClickUnlock),
       (t3, SelectMode Scanner), (t4, Scan raw)] (mounted_p2 fresh emptyStorage)"

definition manualEntryAt ::
  "collator \<Rightarrow> jsstring option \<Rightarrow> nat \<Rightarrow> nat \<Rightarrow> jsstring \<Rightarrow> LockPage \<Rightarrow> outcome \<times> LockPage" where
  "manualEntryAt coll env t5 t6 m s =
     (fst (handleManualAdd_p2 coll t6 (fireTimers t6 (deliver_p2 coll env (t5, TypeName m) s))),
      run_p2 coll env [(t5, TypeName m), (t6, ClickAdd)] s)"

text \<open>A decode event that reaches the page at the time \<open>now\<close>.\<close>

definition scanAt_p1 ::
  "collator \<Rightarrow> (jsstring \<Rightarrow> json option) \<Rightarrow> nat \<Rightarrow> jsstring \<Rightarrow> Page \<Rightarrow> outcome \<times> Page" where
  "scanAt_p1 coll JSON_parse now result s =
     handleDecode_p1 coll JSON_parse now result (fireTimers now s)"

definition scanAt_p2 :: "collator \<Rightarrow> nat \<Rightarrow> jsstring \<Rightarrow> LockPage \<Rightarrow> outcome \<times> LockPage" where
  "scanAt_p2 coll now result s = handleDecode_p2 coll now result (fireTimers now s)"

text \<open>An event of the same page instance (not a reload) that comes before the time
  \<open>due\<close>.\<close>

fun beforeDue_p1 :: "nat \<Rightarrow> nat \<times> event_p1 \<Rightarrow> bool" where
  "beforeDue_p1 due (now, Reload1 fresh) = False"
| "beforeDue_p1 due (now, ev) = (now < due)"

fun beforeDue_p2 :: "nat \<Rightarrow> nat \<times> event_p2 \<Rightarrow> bool" where
  "beforeDue_p2 due (now, Reload fresh) = False"
| "beforeDue_p2 due (now, ev) = (now < due)"

text \<open>The identifiers that \<open>crypto.randomUUID()\<close> hands to an event are not empty.\<close>

fun freshOk :: "nat \<times> event_p1 \<Rightarrow> bool" where
  "freshOk (now, ClickClear1 fresh) = (fresh \<noteq> [])"
| "freshOk (now, Reload1 fresh) = (fresh \<noteq> [])"
| "freshOk (now, ev) = True"

text \<open>Every record, shown or stored, carries the device id of the page that holds it.\<close>

definition ownDeviceInv :: "Page \<Rightarrow> bool" where
  "ownDeviceInv s =
     (deviceIdRef s \<noteq> [] \<and> ls_deviceId (storage s) = Some (deviceIdRef s)
      \<and> list_all (\<lambda>e. deviceId e = deviceIdRef s) (entries s)
      \<and> list_all (\<lambda>e. deviceId e = deviceIdRef s) (readAttendance (storage s)))"

text \<open>The self check-in attempt is used up, in the page and in the storage.\<close>

definition attemptRecorded :: "LockPage \<Rightarrow> bool" where
  "attemptRecorded s = (selfAttempted s \<and> ls_selfAttempted (storage s) = Some (js ''true''))"

section \<open>Properties of the ledger\<close>

subsection \<open>Helper facts\<close>

lemmas sample_defs = localeCompare_accent_zero_def spec_case_accent_insensitive_equal_def
  sampleCollator_def baseLetter_def foldCase_def js_def trim_def isWhiteSpace_def

lemma mset_insertBy: "mset (insertBy cmp x xs) = add_mset x (mset xs)"
  by (induction xs) auto

lemma mset_Array_sort: "mset (Array_sort cmp xs) = mset xs"
  by (induction xs) (auto simp: Array_sort_def mset_insertBy)

lemma set_insertBy: "set (insertBy cmp x xs) = insert x (set xs)"
  by (induction xs) auto

lemma sortedEntries_Cons:
  "sortedEntries (x # es) =
     insertBy (\<lambda>a b. compareInstants (timestamp b) (timestamp a)) x (sortedEntries es)"
  by (simp add: sortedEntries_def Array_sort_def)

lemma desc_insertBy:
  "sorted_wrt (\<lambda>a b. timestamp b \<le> timestamp a) xs \<Longrightarrow>
   sorted_wrt (\<lambda>a b. timestamp b \<le> timestamp a)
     (insertBy (\<lambda>a b. compareInstants (timestamp b) (timestamp a)) x xs)"
  by (induction xs) (auto simp: set_insertBy compareInstants_def split: if_splits)

lemma desc_sortedEntries: "sorted_wrt (\<lambda>a b. timestamp b \<le> timestamp a) (sortedEntries es)"
proof (induction es)
  case Nil
  show ?case by (simp add: sortedEntries_def Array_sort_def)
next
  case (Cons x es)
  then show ?case by (simp add: sortedEntries_Cons desc_insertBy)
qed

lemma filter_insertBy_instant:
  "sorted_wrt (\<lambda>a b. timestamp b \<le> timestamp a) xs \<Longrightarrow>
   filter (\<lambda>e. timestamp e = t)
     (insertBy (\<lambda>a b. compareInstants (timestamp b) (timestamp a)) x xs)
   = (if timestamp x = t then x # filter (\<lambda>e. timestamp e = t) xs
      else filter (\<lambda>e. timestamp e = t) xs)"
  by (induction xs) (auto simp: compareInstants_def split: if_splits)

lemma stable_sortedEntries:
  "filter (\<lambda>e. timestamp e = t) (sortedEntries es) = filter (\<lambda>e. timestamp e = t) es"
proof (induction es)
  case Nil
  show ?case by (simp add: sortedEntries_def Array_sort_def)
next
  case (Cons x es)
  then show ?case
    using desc_sortedEntries [of es] by (simp add: sortedEntries_Cons filter_insertBy_instant)
qed

lemma addEntry_Accepted:
  "fst (addEntry coll dev now raw es) = Accepted \<Longrightarrow>
     snd (addEntry coll dev now raw es) = \<lparr>name = trim raw, deviceId = dev, timestamp = now\<rparr> # es"
  by (simp add: addEntry_def Let_def split: if_splits)

subsection \<open>De-duplication by name\<close>

lemma addEntry_duplicate_iff:
  "fst (addEntry coll dev now raw es) = Rejected_DuplicateName \<longleftrightarrow>
     trim raw \<noteq> [] \<and> (\<exists>e\<in>set es. localeCompare_accent_zero coll (name e) (trim raw))"
  by (simp add: addEntry_def Let_def list_ex_iff)

lemma addEntry_second:
  assumes "trim a \<noteq> []" "trim b \<noteq> []"
  shows "fst (addEntry coll dev t2 b (snd (addEntry coll dev t1 a [])))
     = (if localeCompare_accent_zero coll (trim a) (trim b) then Rejected_DuplicateName else Accepted)"
  using assms by (simp add: addEntry_def Let_def)

text \<open>
  C1 (as stated): the second of \<open>submit("Jose")\<close>, \<open>submit("JOSE-with-acute-E")\<close> is
  rejected as a duplicate, because the comparison ignores accents. On the code it is
  accepted: with a collator that tells the accent apart, the two names are equal in the
  comparison of the specification and the ledger takes both.
\<close>

theorem C1_accent_counterexample:
  "spec_case_accent_insensitive_equal sampleCollator (js ''Jose'') (js ''JOS'' @ [201]) \<and>
   fst (addEntry sampleCollator (js ''dev'') 2 (js ''JOS'' @ [201])
          (snd (addEntry sampleCollator (js ''dev'') 1 (js ''Jose'') []))) \<noteq> Rejected_DuplicateName"
  by (simp add: addEntry_def Let_def sample_defs)

text \<open>
  C1 (amended): de-duplication ignores case and respects accents, for every collator of
  the platform. For every ledger and every candidate, \<open>addEntry\<close> rejects as a duplicate
  exactly when the trimmed candidate is not empty and some entry's name agrees with it in
  base letters and in accents; the case of the letters is never compared. So for any two
  names that are not blank, the second is rejected exactly when it agrees with the first in
  base letters and accents, and accepted exactly when it differs in one of them: a second
  name with the same base letters and other accents, a duplicate in the comparison of the
  specification, is accepted, and one that differs in case only is rejected. Where the
  collator sees different accents in Jose and JOSE with
  an acute accent, the second is accepted; where it sees the same base letters and accents
  in Jose and JOSE, the second is rejected.
\<close>

theorem C1_dedup_case_insensitive_accent_sensitive:
  "(fst (addEntry coll dev now raw es) = Rejected_DuplicateName \<longleftrightarrow>
      trim raw \<noteq> [] \<and>
      (\<exists>e\<in>set es. fst (coll (name e)) = fst (coll (trim raw))
                  \<and> fst (snd (coll (name e))) = fst (snd (coll (trim raw)))))
   \<and> (trim a \<noteq> [] \<and> trim b \<noteq> [] \<longrightarrow>
        (fst (addEntry coll dev t2 b (snd (addEntry coll dev t1 a []))) = Rejected_DuplicateName
           \<longleftrightarrow> fst (coll (trim a)) = fst (coll (trim b))
               \<and> fst (snd (coll (trim a))) = fst (snd (coll (trim b))))
        \<and> (fst (addEntry coll dev t2 b (snd (addEntry coll dev t1 a []))) = Accepted
           \<longleftrightarrow> \<not> (fst (coll (trim a)) = fst (coll (trim b))
                  \<and> fst (snd (coll (trim a))) = fst (snd (coll (trim b))))))
   \<and> (trim a \<noteq> [] \<and> trim b \<noteq> [] \<and> fst (coll (trim a)) = fst (coll (trim b))
        \<and> fst (snd (coll (trim a))) \<noteq> fst (snd (coll (trim b))) \<longrightarrow>
        spec_case_accent_insensitive_equal coll (trim a) (trim b)
        \<and> fst (addEntry coll dev t2 b (snd (addEntry coll dev t1 a []))) = Accepted)
   \<and> (trim a \<noteq> [] \<and> trim b \<noteq> [] \<and> fst (coll (trim a)) = fst (coll (trim b))
        \<and> fst (snd (coll (trim a))) = fst (snd (coll (trim b)))
        \<and> snd (snd (coll (trim a))) \<noteq> snd (snd (coll (trim b))) \<longrightarrow>
        fst (addEntry coll dev t2 b (snd (addEntry coll dev t1 a []))) = Rejected_DuplicateName)
   \<and> (fst (snd (coll (js ''Jose''))) \<noteq> fst (snd (coll (js ''JOS'' @ [201]))) \<longrightarrow>
        fst (addEntry coll dev t2 (js ''JOS'' @ [201]) (snd (addEntry coll dev t1 (js ''Jose'') [])))
          = Accepted)
   \<and> (fst (coll (js ''Jose'')) = fst (coll (js ''JOSE''))
        \<and> fst (snd (coll (js ''Jose''))) = fst (snd (coll (js ''JOSE''))) \<longrightarrow>
        fst (addEntry coll dev t2 (js ''JOSE'') (snd (addEntry coll dev t1 (js ''Jose'') [])))
          = Rejected_DuplicateName)"
proof -
  have dup: "fst (addEntry coll dev now raw es) = Rejected_DuplicateName \<longleftrightarrow>
      trim raw \<noteq> [] \<and>
      (\<exists>e\<in>set es. fst (coll (name e)) = fst (coll (trim raw))
                  \<and> fst (snd (coll (name e))) = fst (snd (coll (trim raw))))"
    using addEntry_duplicate_iff [of coll dev now raw es]
    by (simp add: localeCompare_accent_zero_def)
  have two: "fst (addEntry coll dev t2 y (snd (addEntry coll dev t1 x [])))
     = (if fst (coll (trim x)) = fst (coll (trim y))
           \<and> fst (snd (coll (trim x))) = fst (snd (coll (trim y)))
        then Rejected_DuplicateName else Accepted)"
    if "trim x \<noteq> []" "trim y \<noteq> []" for x y
    using addEntry_second [OF that, of coll dev t2 t1]
    by (simp add: localeCompare_accent_zero_def)
  have t: "trim (js ''Jose'') = js ''Jose''" "trim (js ''JOSE'') = js ''JOSE''"
    "trim (js ''JOS'' @ [201]) = js ''JOS'' @ [201]"
    "js ''Jose'' \<noteq> []" "js ''JOSE'' \<noteq> []" "js ''JOS'' @ [201] \<noteq> []"
    by (simp_all add: js_def trim_def isWhiteSpace_def)
  have acute: "fst (addEntry coll dev t2 (js ''JOS'' @ [201]) (snd (addEntry coll dev t1 (js ''Jose'') [])))
          = Accepted"
    if "fst (snd (coll (js ''Jose''))) \<noteq> fst (snd (coll (js ''JOS'' @ [201])))"
    using two [of "js ''Jose''" "js ''JOS'' @ [201]"] that t by simp
  have upper: "fst (addEntry coll dev t2 (js ''JOSE'') (snd (addEntry coll dev t1 (js ''Jose'') [])))
          = Rejected_DuplicateName"
    if "fst (coll (js ''Jose'')) = fst (coll (js ''JOSE''))
        \<and> fst (snd (coll (js ''Jose''))) = fst (snd (coll (js ''JOSE'')))"
    using two [of "js ''Jose''" "js ''JOSE''"] that t by simp
  have gen: "(fst (addEntry coll dev t2 b (snd (addEntry coll dev t1 a []))) = Rejected_DuplicateName
           \<longleftrightarrow> fst (coll (trim a)) = fst (coll (trim b))
               \<and> fst (snd (coll (trim a))) = fst (snd (coll (trim b))))
        \<and> (fst (addEntry coll dev t2 b (snd (addEntry coll dev t1 a []))) = Accepted
           \<longleftrightarrow> \<not> (fst (coll (trim a)) = fst (coll (trim b))
                  \<and> fst (snd (coll (trim a))) = fst (snd (coll (trim b)))))"
    if "trim a \<noteq> [] \<and> trim b \<noteq> []"
    using two [of a b] that by simp
  have sp: "spec_case_accent_insensitive_equal coll (trim a) (trim b)"
    if "fst (coll (trim a)) = fst (coll (trim b))"
    using that by (simp add: spec_case_accent_insensitive_equal_def)
  have acc: "fst (addEntry coll dev t2 b (snd (addEntry coll dev t1 a []))) = Accepted"
    if "trim a \<noteq> []" "trim b \<noteq> []"
      "fst (snd (coll (trim a))) \<noteq> fst (snd (coll (trim b)))"
    using two [OF that(1,2)] that(3) by simp
  have rej: "fst (addEntry coll dev t2 b (snd (addEntry coll dev t1 a []))) = Rejected_DuplicateName"
    if "trim a \<noteq> []" "trim b \<noteq> []" "fst (coll (trim a)) = fst (coll (trim b))"
      "fst (snd (coll (trim a))) = fst (snd (coll (trim b)))"
    using two [OF that(1,2)] that(3,4) by simp
  show ?thesis using dup gen acute upper sp acc rej by blast
qed

theorem C1_dedup_witness:
  "trim (js ''Jose'') \<noteq> [] \<and> trim (js ''JOS'' @ [201]) \<noteq> []
   \<and> fst (snd (sampleCollator (js ''Jose''))) \<noteq> fst (snd (sampleCollator (js ''JOS'' @ [201])))
   \<and> fst (sampleCollator (js ''Jose'')) = fst (sampleCollator (js ''JOSE''))
   \<and> fst (snd (sampleCollator (js ''Jose''))) = fst (snd (sampleCollator (js ''JOSE'')))
   \<and> fst (addEntry sampleCollator (js ''dev'') 2 (js ''JOS'' @ [201])
        (snd (addEntry sampleCollator (js ''dev'') 1 (js ''Jose'') []))) = Accepted
   \<and> fst (addEntry sampleCollator (js ''dev'') 2 (js ''JOSE'')
        (snd (addEntry sampleCollator (js ''dev'') 1 (js ''Jose'') []))) = Rejected_DuplicateName"
proof -
  have h: "trim (js ''Jose'') \<noteq> []" "trim (js ''JOS'' @ [201]) \<noteq> []"
    "fst (snd (sampleCollator (js ''Jose''))) \<noteq> fst (snd (sampleCollator (js ''JOS'' @ [201])))"
    "fst (sampleCollator (js ''Jose'')) = fst (sampleCollator (js ''JOSE''))"
    "fst (snd (sampleCollator (js ''Jose''))) = fst (snd (sampleCollator (js ''JOSE'')))"
    by (simp_all add: sample_defs)
  show ?thesis
    using h C1_dedup_case_insensitive_accent_sensitive
      [where coll = sampleCollator and dev = "js ''dev''" and a = "js ''Jose''"
         and b = "js ''JOS'' @ [201]" and ?t1.0 = 1 and ?t2.0 = 2]
    by blast
qed

subsection \<open>Presentation order\<close>

text \<open>
  C7: for every ledger, \<open>sortedEntries\<close> (the spec's listDescending) holds the same records,
  sorted by timestamp descending, and is stable: the records that share a timestamp keep
  the order they have in the stored list. \<open>addEntry\<close> stores a new record in front, so among
  the records that share its timestamp the most recently inserted one is presented first.
\<close>

theorem C7_listDescending_sorted_stable:
  "sorted_wrt (\<lambda>a b. timestamp b \<le> timestamp a) (sortedEntries es)
   \<and> mset (sortedEntries es) = mset es
   \<and> filter (\<lambda>e. timestamp e = t) (sortedEntries es) = filter (\<lambda>e. timestamp e = t) es
   \<and> (fst (addEntry coll dev now raw es) = Accepted \<longrightarrow>
        (\<exists>new. snd (addEntry coll dev now raw es) = new # es \<and> timestamp new = now \<and>
           filter (\<lambda>e. timestamp e = now) (sortedEntries (new # es))
             = new # filter (\<lambda>e. timestamp e = now) (sortedEntries es)))"
proof -
  have perm: "mset (sortedEntries es) = mset es"
    by (simp add: sortedEntries_def mset_Array_sort)
  have recent: "\<exists>new. snd (addEntry coll dev now raw es) = new # es \<and> timestamp new = now \<and>
           filter (\<lambda>e. timestamp e = now) (sortedEntries (new # es))
             = new # filter (\<lambda>e. timestamp e = now) (sortedEntries es)"
    if acc: "fst (addEntry coll dev now raw es) = Accepted"
  proof -
    let ?new = "\<lparr>name = trim raw, deviceId = dev, timestamp = now\<rparr>"
    have "snd (addEntry coll dev now raw es) = ?new # es"
      using acc by (rule addEntry_Accepted)
    moreover have "filter (\<lambda>e. timestamp e = now) (sortedEntries (?new # es))
             = ?new # filter (\<lambda>e. timestamp e = now) (sortedEntries es)"
      by (simp add: stable_sortedEntries)
    ultimately show ?thesis by auto
  qed
  show ?thesis
    using desc_sortedEntries [of es] perm stable_sortedEntries [of t es] recent by blast
qed

theorem C7_listDescending_witness:
  "fst (addEntry sampleCollator (js ''dev'') 5 (js ''Cy'')
       [\<lparr>name = js ''Bo'', deviceId = js ''dev'', timestamp = 5\<rparr>,
        \<lparr>name = js ''Al'', deviceId = js ''dev'', timestamp = 9\<rparr>]) = Accepted
   \<and> sortedEntries (snd (addEntry sampleCollator (js ''dev'') 5 (js ''Cy'')
       [\<lparr>name = js ''Bo'', deviceId = js ''dev'', timestamp = 5\<rparr>,
        \<lparr>name = js ''Al'', deviceId = js ''dev'', timestamp = 9\<rparr>]))
     = [\<lparr>name = js ''Al'', deviceId = js ''dev'', timestamp = 9\<rparr>,
        \<lparr>name = js ''Cy'', deviceId = js ''dev'', timestamp = 5\<rparr>,
        \<lparr>name = js ''Bo'', deviceId = js ''dev'', timestamp = 5\<rparr>]"
proof -
  have acc: "fst (addEntry sampleCollator (js ''dev'') 5 (js ''Cy'')
       [\<lparr>name = js ''Bo'', deviceId = js ''dev'', timestamp = 5\<rparr>,
        \<lparr>name = js ''Al'', deviceId = js ''dev'', timestamp = 9\<rparr>]) = Accepted"
    by (simp add: addEntry_def trim_def js_def isWhiteSpace_def Let_def
        localeCompare_accent_zero_def sampleCollator_def baseLetter_def foldCase_def)
  show ?thesis
    using acc C7_listDescending_sorted_stable
      [where es = "[\<lparr>name = js ''Bo'', deviceId = js ''dev'', timestamp = 5\<rparr>,
            \<lparr>name = js ''Al'', deviceId = js ''dev'', timestamp = 9\<rparr>]"
         and t = 5 and coll = sampleCollator and dev = "js ''dev''" and now = 5
         and raw = "js ''Cy''"]
    by (simp add: addEntry_def trim_def js_def isWhiteSpace_def Let_def
        localeCompare_accent_zero_def sampleCollator_def baseLetter_def foldCase_def sortedEntries_def Array_sort_def
        compareInstants_def)
qed

section \<open>Properties of the payload decoder\<close>

lemma trim_Nil_iff: "trim s = [] \<longleftrightarrow> (\<forall>c\<in>set s. isWhiteSpace c)"
proof -
  have "trim s = [] \<longleftrightarrow> (\<forall>c\<in>set (dropWhile isWhiteSpace s). isWhiteSpace c)"
    by (simp add: trim_def)
  also have "\<dots> \<longleftrightarrow> dropWhile isWhiteSpace s = []"
    by (metis hd_dropWhile list.set_sel(1) empty_iff empty_set)
  finally show ?thesis by simp
qed

lemma trim_idem: "trim (trim s) = trim s"
proof -
  define a where "a = dropWhile isWhiteSpace s"
  define b where "b = dropWhile isWhiteSpace (rev a)"
  have ts: "trim s = rev b" by (simp add: trim_def a_def b_def)
  have keep: "dropWhile isWhiteSpace (rev b) = rev b"
  proof (cases "b = []")
    case True
    then show ?thesis by simp
  next
    case False
    then have "rev a \<noteq> []" by (auto simp: b_def)
    then have ne: "a \<noteq> []" by simp
    then have hd_a: "\<not> isWhiteSpace (hd a)" unfolding a_def by (rule hd_dropWhile)
    have "hd a \<in> set (rev a)" using ne by simp
    then have "last b = last (rev a)" unfolding b_def using hd_a by (rule dropWhile_last)
    then have "last b = hd a" using ne by (simp add: last_rev)
    then have "\<not> isWhiteSpace (hd (rev b))" using hd_a False by (simp add: hd_rev)
    then show ?thesis by (simp add: dropWhile_eq_self_iff)
  qed
  have "dropWhile isWhiteSpace b = b" by (simp add: b_def)
  then have "trim (rev b) = rev b" by (simp add: trim_def keep)
  then show ?thesis by (simp add: ts)
qed

lemma nameLoop_None:
  "nameLoop parsed keys = None \<Longrightarrow> k \<in> set keys \<Longrightarrow> ownField parsed k = Some (JStr v) \<Longrightarrow>
     trim v = []"
  by (induction keys) (auto split: option.splits json.splits if_splits)

lemma combineFirstLast_unused:
  assumes n: "nameLoop parsed nameCandidateKeys = None"
  shows "combineFirstLast parsed = None"
proof -
  have f: "js ''firstName'' \<in> set nameCandidateKeys"
    and l: "js ''lastName'' \<in> set nameCandidateKeys"
    by (simp_all add: nameCandidateKeys_def)
  have "trim (x @ [32] @ y) = []"
    if "ownField parsed (js ''firstName'') = Some (JStr x)"
      and "ownField parsed (js ''lastName'') = Some (JStr y)" for x y
  proof -
    have "trim x = []" using nameLoop_None [OF n f] that by simp
    moreover have "trim y = []" using nameLoop_None [OF n l] that by simp
    ultimately show ?thesis by (auto simp: trim_Nil_iff isWhiteSpace_def)
  qed
  then show ?thesis
    by (auto simp: combineFirstLast_def Let_def split: option.splits json.splits)
qed

text \<open>
  C3: the claim says that the payload with the fields firstName "Ann" and lastName "Lee"
  decodes to the name "Ann Lee". The list that the loop scans holds \<open>firstName\<close> and
  \<open>lastName\<close> themselves, after the eight keys of the claim, so the loop takes firstName
  alone and the decoded name is "Ann". For every parsed value the name is what the loop
  finds: the combination of firstName and lastName never supplies it.
\<close>

theorem C3_firstName_taken_alone:
  "(JSON_parse (trim raw)
      = Some (JObj [(js ''firstName'', JStr (js ''Ann'')), (js ''lastName'', JStr (js ''Lee''))])
    \<longrightarrow> qr_name (parseDeviceIdFromQrPayload JSON_parse raw) = Some (js ''Ann''))
   \<and> extractedName parsed = nameLoop parsed nameCandidateKeys"
proof -
  have ex: "qr_name (parseDeviceIdFromQrPayload JSON_parse raw) = Some (js ''Ann'')"
    if "JSON_parse (trim raw)
      = Some (JObj [(js ''firstName'', JStr (js ''Ann'')), (js ''lastName'', JStr (js ''Lee''))])"
    using that
    by (simp add: parseDeviceIdFromQrPayload_def Let_def extractedName_def nameCandidateKeys_def
        candidateKeys_def js_def trim_def isWhiteSpace_def)
  have "extractedName parsed = nameLoop parsed nameCandidateKeys"
    by (cases "nameLoop parsed nameCandidateKeys")
      (simp_all add: extractedName_def combineFirstLast_unused)
  with ex show ?thesis by blast
qed

theorem C3_firstName_witness:
  \<open>sampleParse (trim (js ''{"firstName":"Ann","lastName":"Lee"}''))
      = Some (JObj [(js ''firstName'', JStr (js ''Ann'')), (js ''lastName'', JStr (js ''Lee''))])
   \<and> qr_name (parseDeviceIdFromQrPayload sampleParse (js ''{"firstName":"Ann","lastName":"Lee"}''))
      = Some (js ''Ann'')\<close>
proof -
  have h: \<open>sampleParse (trim (js ''{"firstName":"Ann","lastName":"Lee"}''))
      = Some (JObj [(js ''firstName'', JStr (js ''Ann'')), (js ''lastName'', JStr (js ''Lee''))])\<close>
    by (simp add: sampleParse_def trim_def js_def isWhiteSpace_def)
  show ?thesis
    using h C3_firstName_taken_alone
      [of sampleParse \<open>js ''{"firstName":"Ann","lastName":"Lee"}''\<close>]
    by blast
qed

section \<open>Properties of the page with modes and lock\<close>

subsection \<open>Helper facts\<close>

lemmas p2_defs = run_p2_def deliver_p2_def mounted_p2_def mountEffect_p2_def initialPage_p2_def
  forceSelfEffect_def getOrCreateDeviceId_def emptyStorage_def fireTimers_def readAttendance_def
  unlock_def handleDecode_p2_def beginScan_def addEntryPage_def writeAttendance_def
  handleManualAdd_p2_def Let_def

lemma forceSelfEffect_locked_Self:
  "\<not> organizerUnlocked (forceSelfEffect s) \<Longrightarrow> mode (forceSelfEffect s) = Self"
  by (cases "mode s") (auto simp: forceSelfEffect_def)

lemma run_p2_snoc: "run_p2 coll env (evs @ [ev]) s = deliver_p2 coll env ev (run_p2 coll env evs s)"
  by (simp add: run_p2_def)

lemma attemptRecorded_fireTimers: "attemptRecorded (fireTimers now s) = attemptRecorded s"
  by (simp add: attemptRecorded_def fireTimers_def)

lemma attemptRecorded_forceSelfEffect: "attemptRecorded (forceSelfEffect s) = attemptRecorded s"
  by (simp add: attemptRecorded_def forceSelfEffect_def)

lemma attemptRecorded_handleDecode:
  "attemptRecorded s \<Longrightarrow> attemptRecorded (snd (handleDecode_p2 coll now raw s))"
  by (auto simp: handleDecode_p2_def Let_def attemptRecorded_def beginScan_def addEntryPage_def
      writeAttendance_def split: prod.splits)

lemma attemptRecorded_handleManualAdd:
  "attemptRecorded s \<Longrightarrow> attemptRecorded (snd (handleManualAdd_p2 coll now s))"
  by (auto simp: handleManualAdd_p2_def attemptRecorded_def addEntryPage_def writeAttendance_def
      split: prod.splits)

lemma attemptRecorded_handle:
  assumes "attemptRecorded s"
  shows "attemptRecorded (handle_p2 coll env now ev s)"
proof (cases ev)
  case (Scan v)
  then show ?thesis using assms by (simp add: attemptRecorded_handleDecode)
next
  case ClickAdd
  then show ?thesis using assms by (simp add: attemptRecorded_handleManualAdd)
next
  case (Reload fresh)
  then show ?thesis using assms
    by (auto simp: attemptRecorded_def mountEffect_p2_def initialPage_p2_def
        getOrCreateDeviceId_def split: option.splits)
qed (use assms in \<open>auto simp: attemptRecorded_def unlock_def clearAll_p2_def writeAttendance_def\<close>)

lemma attemptRecorded_run: "attemptRecorded s \<Longrightarrow> attemptRecorded (run_p2 coll env evs s)"
  by (induction evs rule: rev_induct)
    (simp_all add: run_p2_def deliver_p2_def attemptRecorded_forceSelfEffect
      attemptRecorded_handle attemptRecorded_fireTimers)

lemma attemptRecorded_scan_outcome:
  "attemptRecorded s \<Longrightarrow> mode s = Self \<Longrightarrow>
     fst (handleDecode_p2 coll now raw s)
       = (if justScanned s then Discarded_debounce else Unauthorized_already_checked_in)"
  by (simp add: handleDecode_p2_def Let_def attemptRecorded_def)

lemma trim_nonempty: "trim raw \<noteq> [] \<Longrightarrow> raw \<noteq> []"
  by (auto simp: trim_def)

subsection \<open>Mode and lock\<close>

text \<open>
  C8 (as stated): the invariant "lock not open implies mode SelfCheckIn" holds in every
  state, the initial one included. The initial state, the values of the \<open>useState\<close> calls,
  has the lock engaged and the mode \<open>scanner\<close>.
\<close>

theorem C8_initial_state_counterexample:
  "\<not> (\<not> organizerUnlocked (initialPage_p2 emptyStorage)
        \<longrightarrow> mode (initialPage_p2 emptyStorage) = Self)"
  by (simp add: initialPage_p2_def)

text \<open>
  C8 (amended): once the effects of the first render have run, and after every event and
  the effect that follows it, the mode is \<open>self\<close> whenever the organizer lock is not open;
  that is, in the mounted page and in every state reached from it by any events.
\<close>

theorem C8_mode_lock_after_effect:
  "\<not> organizerUnlocked (run_p2 coll env evs (mounted_p2 fresh ls))
     \<longrightarrow> mode (run_p2 coll env evs (mounted_p2 fresh ls)) = Self"
proof (induction evs rule: rev_induct)
  case Nil
  show ?case by (simp add: run_p2_def mounted_p2_def forceSelfEffect_locked_Self)
next
  case (snoc ev evs)
  show ?case by (simp add: run_p2_snoc deliver_p2_def forceSelfEffect_locked_Self)
qed

theorem C8_mode_lock_witness:
  "\<not> organizerUnlocked (run_p2 sampleCollator None [(5, SelectMode Scanner)] (mounted_p2 (js ''dev-1'') emptyStorage))
   \<and> mode (run_p2 sampleCollator None [(5, SelectMode Scanner)] (mounted_p2 (js ''dev-1'') emptyStorage)) = Self"
proof -
  have h: "\<not> organizerUnlocked
      (run_p2 sampleCollator None [(5, SelectMode Scanner)] (mounted_p2 (js ''dev-1'') emptyStorage))"
    by (simp add: p2_defs)
  show ?thesis
    using h C8_mode_lock_after_effect
      [of sampleCollator None "[(5, SelectMode Scanner)]" "js ''dev-1''" emptyStorage]
    by blast
qed

subsection \<open>Self check-in\<close>

text \<open>
  C10: in self mode \<open>handleDecode\<close> does not look at the scanned text: from the same
  state any two texts (the empty one and text that is not JSON included) give the same
  outcome and the same next state, and when the attempt is still free and the scan is
  handled, any text uses it up.
\<close>

theorem C10_self_scan_ignores_payload:
  "mode s = Self \<longrightarrow>
     handleDecode_p2 coll now raw1 s = handleDecode_p2 coll now raw2 s
     \<and> (\<not> justScanned s \<and> \<not> selfAttempted s \<longrightarrow>
          fst (handleDecode_p2 coll now raw1 s) = SelfConfirmed
          \<and> selfAttempted (snd (handleDecode_p2 coll now raw1 s)))"
  by (simp add: handleDecode_p2_def Let_def)

theorem C10_self_scan_witness:
  "mode (mounted_p2 (js ''dev-1'') emptyStorage) = Self
   \<and> handleDecode_p2 sampleCollator 7 [] (mounted_p2 (js ''dev-1'') emptyStorage)
       = handleDecode_p2 sampleCollator 7 (js ''}not json{'') (mounted_p2 (js ''dev-1'') emptyStorage)
   \<and> fst (handleDecode_p2 sampleCollator 7 [] (mounted_p2 (js ''dev-1'') emptyStorage)) = SelfConfirmed
   \<and> selfAttempted (snd (handleDecode_p2 sampleCollator 7 [] (mounted_p2 (js ''dev-1'') emptyStorage)))"
proof -
  have h: "mode (mounted_p2 (js ''dev-1'') emptyStorage) = Self"
    "\<not> justScanned (mounted_p2 (js ''dev-1'') emptyStorage)"
    "\<not> selfAttempted (mounted_p2 (js ''dev-1'') emptyStorage)"
    by (simp_all add: mounted_p2_def mountEffect_p2_def initialPage_p2_def forceSelfEffect_def
        getOrCreateDeviceId_def emptyStorage_def)
  show ?thesis
    using h C10_self_scan_ignores_payload
      [of "mounted_p2 (js ''dev-1'') emptyStorage" sampleCollator 7 "[]" "js ''}not json{''"]
    by blast
qed

text \<open>
  C4 (as stated): every self-mode scan after the first confirmed one is rejected as
  already checked in. A scan that arrives while \<open>justScanned\<close> is still set returns at the
  first line of \<open>handleDecode\<close>: 100 ms after the confirmed scan nothing is reported.
\<close>

theorem C4_debounced_scan_counterexample:
  "fst (handleDecode_p2 sampleCollator 1000 (js ''Ann'') (mounted_p2 (js ''dev-1'') emptyStorage)) = SelfConfirmed
   \<and> fst (handleDecode_p2 sampleCollator 1100 (js ''Ann'')
        (fireTimers 1100
           (snd (handleDecode_p2 sampleCollator 1000 (js ''Ann'') (mounted_p2 (js ''dev-1'') emptyStorage)))))
       \<noteq> Unauthorized_already_checked_in"
  by (simp add: p2_defs)

text \<open>
  C4 (amended): in self mode no scan changes the attendance list, in the page or in the
  storage. A scan that the debounce guard lets through while the attempt flag is false
  yields SelfConfirmed and sets the flag. From then on, whatever events follow, every
  self-mode scan is either dropped by the debounce guard or rejected as already checked
  in.
\<close>

theorem C4_self_check_in_single_attempt:
  "mode s = Self \<longrightarrow>
     entries (snd (handleDecode_p2 coll now raw s)) = entries s
     \<and> ls_attendance (storage (snd (handleDecode_p2 coll now raw s))) = ls_attendance (storage s)
     \<and> (\<not> justScanned s \<and> \<not> selfAttempted s \<longrightarrow>
          fst (handleDecode_p2 coll now raw s) = SelfConfirmed
          \<and> selfAttempted (snd (handleDecode_p2 coll now raw s))
          \<and> (mode (fireTimers now' (run_p2 coll env evs (snd (handleDecode_p2 coll now raw s)))) = Self \<longrightarrow>
               fst (handleDecode_p2 coll now' raw'
                      (fireTimers now' (run_p2 coll env evs (snd (handleDecode_p2 coll now raw s)))))
                 = (if justScanned (fireTimers now' (run_p2 coll env evs (snd (handleDecode_p2 coll now raw s))))
                    then Discarded_debounce else Unauthorized_already_checked_in)))"
proof -
  have unchanged: "entries (snd (handleDecode_p2 coll now raw s)) = entries s
     \<and> ls_attendance (storage (snd (handleDecode_p2 coll now raw s))) = ls_attendance (storage s)"
    if "mode s = Self"
    using that by (simp add: handleDecode_p2_def Let_def beginScan_def)
  have first: "fst (handleDecode_p2 coll now raw s) = SelfConfirmed
      \<and> selfAttempted (snd (handleDecode_p2 coll now raw s))
      \<and> attemptRecorded (snd (handleDecode_p2 coll now raw s))"
    if "mode s = Self" "\<not> justScanned s" "\<not> selfAttempted s"
    using that by (simp add: handleDecode_p2_def Let_def attemptRecorded_def beginScan_def)
  have later: "fst (handleDecode_p2 coll now' raw'
                      (fireTimers now' (run_p2 coll env evs (snd (handleDecode_p2 coll now raw s)))))
                 = (if justScanned (fireTimers now' (run_p2 coll env evs (snd (handleDecode_p2 coll now raw s))))
                    then Discarded_debounce else Unauthorized_already_checked_in)"
    if "attemptRecorded (snd (handleDecode_p2 coll now raw s))"
      and "mode (fireTimers now' (run_p2 coll env evs (snd (handleDecode_p2 coll now raw s)))) = Self"
  proof -
    have "attemptRecorded (fireTimers now' (run_p2 coll env evs (snd (handleDecode_p2 coll now raw s))))"
      using that(1) by (simp add: attemptRecorded_fireTimers attemptRecorded_run)
    then show ?thesis using that(2) by (rule attemptRecorded_scan_outcome)
  qed
  show ?thesis using unchanged first later by blast
qed

theorem C4_self_check_in_witness:
  "mode (mounted_p2 (js ''dev-1'') emptyStorage) = Self
   \<and> fst (handleDecode_p2 sampleCollator 1000 (js ''Ann'') (mounted_p2 (js ''dev-1'') emptyStorage)) = SelfConfirmed
   \<and> entries (snd (handleDecode_p2 sampleCollator 1000 (js ''Ann'') (mounted_p2 (js ''dev-1'') emptyStorage))) = []
   \<and> fst (handleDecode_p2 sampleCollator 3000 (js ''Bob'')
        (fireTimers 3000 (run_p2 sampleCollator None [(2500, ClickClear)]
           (snd (handleDecode_p2 sampleCollator 1000 (js ''Ann'') (mounted_p2 (js ''dev-1'') emptyStorage))))))
       = Unauthorized_already_checked_in"
proof -
  have h: "mode (mounted_p2 (js ''dev-1'') emptyStorage) = Self"
    "\<not> justScanned (mounted_p2 (js ''dev-1'') emptyStorage)"
    "\<not> selfAttempted (mounted_p2 (js ''dev-1'') emptyStorage)"
    "entries (mounted_p2 (js ''dev-1'') emptyStorage) = []"
    by (simp_all add: p2_defs)
  have m: "mode (fireTimers 3000 (run_p2 sampleCollator None [(2500, ClickClear)]
           (snd (handleDecode_p2 sampleCollator 1000 (js ''Ann'') (mounted_p2 (js ''dev-1'') emptyStorage))))) = Self"
    "\<not> justScanned (fireTimers 3000 (run_p2 sampleCollator None [(2500, ClickClear)]
           (snd (handleDecode_p2 sampleCollator 1000 (js ''Ann'') (mounted_p2 (js ''dev-1'') emptyStorage)))))"
    by (simp_all add: p2_defs clearAll_p2_def)
  show ?thesis
    using h m C4_self_check_in_single_attempt
      [of "mounted_p2 (js ''dev-1'') emptyStorage" sampleCollator 1000 "js ''Ann''" 3000 None
          "[(2500, ClickClear)]" "js ''Bob''"]
    by simp
qed

subsection \<open>The organizer lock\<close>

text \<open>
  C5 (as stated): every manual entry made while the lock is engaged yields
  Unauthorized("locked"). \<open>handleManualAdd\<close> tests the name before the lock: with a blank
  name it returns at its first line and reports nothing.
\<close>

theorem C5_blank_manual_entry_counterexample:
  "\<not> organizerUnlocked ((mounted_p2 (js ''dev-1'') emptyStorage)\<lparr>manualName := js ''  ''\<rparr>)
   \<and> fst (handleManualAdd_p2 sampleCollator 10 ((mounted_p2 (js ''dev-1'') emptyStorage)\<lparr>manualName := js ''  ''\<rparr>))
       \<noteq> Unauthorized_locked"
  by (simp add: p2_defs js_def trim_def isWhiteSpace_def)

text \<open>
  C5 (amended): while the lock is engaged, a manual entry and a scanner-mode scan leave
  the attendance list and the storage unchanged. A manual entry with a name that is not
  blank yields Unauthorized("locked"), whatever the mode; one with a blank name is
  ignored. A scanner-mode scan yields Unauthorized("locked") unless the debounce guard
  drops it.
\<close>

theorem C5_lock_gating:
  "\<not> organizerUnlocked s \<longrightarrow>
     (entries (snd (handleManualAdd_p2 coll now s)) = entries s
      \<and> storage (snd (handleManualAdd_p2 coll now s)) = storage s
      \<and> fst (handleManualAdd_p2 coll now s)
          = (if trim (manualName s) = [] then Ignored_blank else Unauthorized_locked))
     \<and> (mode s = Scanner \<longrightarrow>
          entries (snd (handleDecode_p2 coll now raw s)) = entries s
          \<and> storage (snd (handleDecode_p2 coll now raw s)) = storage s
          \<and> fst (handleDecode_p2 coll now raw s)
              = (if justScanned s then Discarded_debounce else Unauthorized_locked))"
  by (simp add: handleManualAdd_p2_def handleDecode_p2_def Let_def beginScan_def)

theorem C5_lock_gating_witness:
  "\<not> organizerUnlocked ((initialPage_p2 emptyStorage)\<lparr>manualName := js ''Ann''\<rparr>)
   \<and> mode ((initialPage_p2 emptyStorage)\<lparr>manualName := js ''Ann''\<rparr>) = Scanner
   \<and> fst (handleManualAdd_p2 sampleCollator 10 ((initialPage_p2 emptyStorage)\<lparr>manualName := js ''Ann''\<rparr>))
       = Unauthorized_locked
   \<and> fst (handleDecode_p2 sampleCollator 10 (js ''Ann'') ((initialPage_p2 emptyStorage)\<lparr>manualName := js ''Ann''\<rparr>))
       = Unauthorized_locked
   \<and> entries (snd (handleDecode_p2 sampleCollator 10 (js ''Ann'')
        ((initialPage_p2 emptyStorage)\<lparr>manualName := js ''Ann''\<rparr>))) = []"
proof -
  have h: "\<not> organizerUnlocked ((initialPage_p2 emptyStorage)\<lparr>manualName := js ''Ann''\<rparr>)"
    "mode ((initialPage_p2 emptyStorage)\<lparr>manualName := js ''Ann''\<rparr>) = Scanner"
    "\<not> justScanned ((initialPage_p2 emptyStorage)\<lparr>manualName := js ''Ann''\<rparr>)"
    "entries ((initialPage_p2 emptyStorage)\<lparr>manualName := js ''Ann''\<rparr>) = []"
    "trim (manualName ((initialPage_p2 emptyStorage)\<lparr>manualName := js ''Ann''\<rparr>)) \<noteq> []"
    by (simp_all add: initialPage_p2_def js_def trim_def isWhiteSpace_def)
  show ?thesis
    using h C5_lock_gating
      [of "(initialPage_p2 emptyStorage)\<lparr>manualName := js ''Ann''\<rparr>" sampleCollator 10
          "js ''Ann''"]
    by simp
qed

subsection \<open>The organizer's flow\<close>

lemma organizerScan_state:
  assumes "trim raw \<noteq> []"
  shows "entries (organizerScan coll env t1 t2 t3 t4 fresh raw)
         = [\<lparr>name = trim raw, deviceId = fresh, timestamp = t4\<rparr>]"
    and "organizerUnlocked (organizerScan coll env t1 t2 t3 t4 fresh raw)"
    and "deviceIdRef (organizerScan coll env t1 t2 t3 t4 fresh raw) = fresh"
proof -
  have ne: "raw \<noteq> []" using assms by (rule trim_nonempty)
  show "entries (organizerScan coll env t1 t2 t3 t4 fresh raw)
         = [\<lparr>name = trim raw, deviceId = fresh, timestamp = t4\<rparr>]"
    using ne assms by (simp add: organizerScan_def p2_defs addEntry_def)
  show "organizerUnlocked (organizerScan coll env t1 t2 t3 t4 fresh raw)"
    using ne assms by (simp add: organizerScan_def p2_defs addEntry_def)
  show "deviceIdRef (organizerScan coll env t1 t2 t3 t4 fresh raw) = fresh"
    using ne assms by (simp add: organizerScan_def p2_defs addEntry_def)
qed

lemma manualEntryAt_one_record:
  assumes "organizerUnlocked s" "entries s = [r]" "trim m \<noteq> []"
  shows "fst (manualEntryAt coll env t5 t6 m s) =
     (if localeCompare_accent_zero coll (name r) (trim m)
      then Rejected_DuplicateName else Accepted)"
    and "entries (snd (manualEntryAt coll env t5 t6 m s)) =
     (if localeCompare_accent_zero coll (name r) (trim m) then [r]
      else [\<lparr>name = trim m, deviceId = deviceIdRef s, timestamp = t6\<rparr>, r])"
  using assms by (simp_all add: manualEntryAt_def p2_defs addEntry_def)

text \<open>
  C2 (as stated): after unlocking with the PIN, the scan of the text
  \<open>{"name":"Ann","deviceId":"d1"}\<close> leaves one record with name "Ann" and deviceId "d1", and a
  manual entry of "Ann" is then a duplicate. On this page, with scanner mode selected after
  the unlock, the one record carries the page's own device id and the scanned text as its
  name, and the manual entry of "Ann" is accepted as a second record. Without selecting
  scanner mode the page stays in self mode and the scan records nothing.
\<close>

theorem C2_end_to_end_counterexample:
  \<open>entries (run_p2 sampleCollator None [(1, TypePin (js ''1234'')), (2, ClickUnlock),
       (3, SelectMode Scanner), (4, Scan (js ''{"name":"Ann","deviceId":"d1"}''))]
       (mounted_p2 (js ''scanner-1'') emptyStorage))
     = [\<lparr>name = js ''{"name":"Ann","deviceId":"d1"}'', deviceId = js ''scanner-1'', timestamp = 4\<rparr>]
   \<and> map name (entries (run_p2 sampleCollator None [(1, TypePin (js ''1234'')), (2, ClickUnlock),
       (3, SelectMode Scanner), (4, Scan (js ''{"name":"Ann","deviceId":"d1"}'')),
       (5, TypeName (js ''Ann'')), (6, ClickAdd)] (mounted_p2 (js ''scanner-1'') emptyStorage)))
     = [js ''Ann'', js ''{"name":"Ann","deviceId":"d1"}'']
   \<and> entries (run_p2 sampleCollator None [(1, TypePin (js ''1234'')), (2, ClickUnlock),
       (4, Scan (js ''{"name":"Ann","deviceId":"d1"}''))]
       (mounted_p2 (js ''scanner-1'') emptyStorage)) = []\<close>
  by (simp add: p2_defs addEntry_def ORGANIZER_PIN_def sample_defs)

text \<open>
  C2 (amended): on a fresh page with the PIN lock, after typing the correct PIN, unlocking
  and selecting scanner mode, the scan of a text that is not blank leaves the ledger with
  exactly one record: its name is the scanned text itself, trimmed (this page does not
  decode the payload), its deviceId is the scanning page's own device id and its timestamp
  the time of the scan. A manual entry of the scanned text is then rejected as a
  duplicate. In general a manual entry of a name that is not blank is rejected as a
  duplicate exactly when the collator finds it equal to the scanned text at sensitivity
  "accent"; then the ledger still holds that one record and \<open>sortedEntries\<close> returns it;
  otherwise the entry is accepted and the ledger holds two records.
\<close>

theorem C2_organizer_flow:
  "trim raw \<noteq> [] \<longrightarrow>
     entries (organizerScan coll env t1 t2 t3 t4 fresh raw)
       = [\<lparr>name = trim raw, deviceId = fresh, timestamp = t4\<rparr>]
     \<and> fst (manualEntryAt coll env t5 t6 raw (organizerScan coll env t1 t2 t3 t4 fresh raw))
         = Rejected_DuplicateName
     \<and> (trim m \<noteq> [] \<longrightarrow>
          fst (manualEntryAt coll env t5 t6 m (organizerScan coll env t1 t2 t3 t4 fresh raw))
            = (if (fst (coll (trim raw)) = fst (coll (trim m))
                   \<and> fst (snd (coll (trim raw))) = fst (snd (coll (trim m))))
               then Rejected_DuplicateName else Accepted)
          \<and> ((fst (coll (trim raw)) = fst (coll (trim m))
                   \<and> fst (snd (coll (trim raw))) = fst (snd (coll (trim m)))) \<longrightarrow>
                entries (snd (manualEntryAt coll env t5 t6 m
                                (organizerScan coll env t1 t2 t3 t4 fresh raw)))
                  = [\<lparr>name = trim raw, deviceId = fresh, timestamp = t4\<rparr>]
                \<and> sortedEntries (entries (snd (manualEntryAt coll env t5 t6 m
                                (organizerScan coll env t1 t2 t3 t4 fresh raw))))
                  = [\<lparr>name = trim raw, deviceId = fresh, timestamp = t4\<rparr>])
          \<and> (\<not> (fst (coll (trim raw)) = fst (coll (trim m))
                   \<and> fst (snd (coll (trim raw))) = fst (snd (coll (trim m)))) \<longrightarrow>
                entries (snd (manualEntryAt coll env t5 t6 m
                                (organizerScan coll env t1 t2 t3 t4 fresh raw)))
                  = [\<lparr>name = trim m, deviceId = fresh, timestamp = t6\<rparr>,
                     \<lparr>name = trim raw, deviceId = fresh, timestamp = t4\<rparr>]))"
proof
  assume ne: "trim raw \<noteq> []"
  let ?s = "organizerScan coll env t1 t2 t3 t4 fresh raw"
  let ?r = "\<lparr>name = trim raw, deviceId = fresh, timestamp = t4\<rparr>"
  have e: "entries ?s = [?r]" and u: "organizerUnlocked ?s" and d: "deviceIdRef ?s = fresh"
    using organizerScan_state [OF ne] by simp_all
  have srt: "sortedEntries [?r] = [?r]"
    by (simp add: sortedEntries_def Array_sort_def)
  have man: "fst (manualEntryAt coll env t5 t6 x ?s)
            = (if (fst (coll (trim raw)) = fst (coll (trim x))
                   \<and> fst (snd (coll (trim raw))) = fst (snd (coll (trim x))))
               then Rejected_DuplicateName else Accepted)"
    "entries (snd (manualEntryAt coll env t5 t6 x ?s))
            = (if (fst (coll (trim raw)) = fst (coll (trim x))
                   \<and> fst (snd (coll (trim raw))) = fst (snd (coll (trim x)))) then [?r]
               else [\<lparr>name = trim x, deviceId = fresh, timestamp = t6\<rparr>, ?r])"
    if "trim x \<noteq> []" for x
    using manualEntryAt_one_record [OF u e that, of coll env t5 t6] d
    by (simp_all add: localeCompare_accent_zero_def)
  have same: "fst (manualEntryAt coll env t5 t6 raw ?s) = Rejected_DuplicateName"
    using man(1) [OF ne] by simp
  show "entries ?s = [?r]
     \<and> fst (manualEntryAt coll env t5 t6 raw ?s) = Rejected_DuplicateName
     \<and> (trim m \<noteq> [] \<longrightarrow>
          fst (manualEntryAt coll env t5 t6 m ?s)
            = (if (fst (coll (trim raw)) = fst (coll (trim m))
                   \<and> fst (snd (coll (trim raw))) = fst (snd (coll (trim m))))
               then Rejected_DuplicateName else Accepted)
          \<and> ((fst (coll (trim raw)) = fst (coll (trim m))
                   \<and> fst (snd (coll (trim raw))) = fst (snd (coll (trim m)))) \<longrightarrow>
                entries (snd (manualEntryAt coll env t5 t6 m ?s)) = [?r]
                \<and> sortedEntries (entries (snd (manualEntryAt coll env t5 t6 m ?s))) = [?r])
          \<and> (\<not> (fst (coll (trim raw)) = fst (coll (trim m))
                   \<and> fst (snd (coll (trim raw))) = fst (snd (coll (trim m)))) \<longrightarrow>
                entries (snd (manualEntryAt coll env t5 t6 m ?s))
                  = [\<lparr>name = trim m, deviceId = fresh, timestamp = t6\<rparr>, ?r]))"
    using e same man [of m] srt by simp
qed

theorem C2_organizer_flow_witness:
  \<open>trim (js ''{"name":"Ann","deviceId":"d1"}'') \<noteq> [] \<and> trim (js ''Ann'') \<noteq> []
   \<and> \<not> localeCompare_accent_zero sampleCollator (trim (js ''{"name":"Ann","deviceId":"d1"}''))
         (trim (js ''Ann''))
   \<and> entries (organizerScan sampleCollator None 1 2 3 4 (js ''scanner-1'')
         (js ''{"name":"Ann","deviceId":"d1"}''))
       = [\<lparr>name = js ''{"name":"Ann","deviceId":"d1"}'', deviceId = js ''scanner-1'', timestamp = 4\<rparr>]
   \<and> fst (manualEntryAt sampleCollator None 5 6 (js ''{"name":"Ann","deviceId":"d1"}'')
         (organizerScan sampleCollator None 1 2 3 4 (js ''scanner-1'')
            (js ''{"name":"Ann","deviceId":"d1"}''))) = Rejected_DuplicateName
   \<and> fst (manualEntryAt sampleCollator None 5 6 (js ''Ann'')
         (organizerScan sampleCollator None 1 2 3 4 (js ''scanner-1'')
            (js ''{"name":"Ann","deviceId":"d1"}''))) = Accepted\<close>
proof -
  have t: \<open>trim (js ''{"name":"Ann","deviceId":"d1"}'') = js ''{"name":"Ann","deviceId":"d1"}''\<close>
    "trim (js ''Ann'') = js ''Ann''"
    by (simp_all add: js_def trim_def isWhiteSpace_def)
  have h: \<open>trim (js ''{"name":"Ann","deviceId":"d1"}'') \<noteq> []\<close>
    "trim (js ''Ann'') \<noteq> []"
    unfolding t by (simp_all add: js_def)
  have n: \<open>\<not> localeCompare_accent_zero sampleCollator
       (trim (js ''{"name":"Ann","deviceId":"d1"}'')) (trim (js ''Ann''))\<close>
    unfolding t by (simp add: localeCompare_accent_zero_def sampleCollator_def js_def)
  show ?thesis
    using h n n [unfolded localeCompare_accent_zero_def] t C2_organizer_flow
      [where raw = \<open>js ''{"name":"Ann","deviceId":"d1"}''\<close> and coll = sampleCollator
         and env = None and ?t1.0 = 1 and ?t2.0 = 2 and ?t3.0 = 3 and ?t4.0 = 4
         and fresh = "js ''scanner-1''" and ?t5.0 = 5 and ?t6.0 = 6 and m = "js ''Ann''"]
    by simp
qed

section \<open>Properties of the debounce\<close>

lemmas p1_defs = run_p1_def scanAt_p1_def handleDecode_p1_def mounted_p1_def mountEffect_p1_def
  initialPage_p1_def getOrCreateDeviceId_def emptyStorage_def fireTimers_def readAttendance_def
  beginScan_def addEntryPage_def writeAttendance_def Let_def scannedObject_def incoming_def
  addEntry_def

lemma debounceInv_fireTimers: "debounceInv s \<Longrightarrow> debounceInv (fireTimers now s)"
  by (cases "timers s") (auto simp: debounceInv_def fireTimers_def split: if_splits)

lemma fireTimers_armed: "timers s = [due] \<Longrightarrow> now < due \<Longrightarrow> fireTimers now s = s"
  by (simp add: fireTimers_def)

lemma fireTimers_due:
  "timers s = [due] \<Longrightarrow> due \<le> now \<Longrightarrow> \<not> justScanned (fireTimers now s)"
  by (simp add: fireTimers_def)

lemma handleDecode_p1_timers:
  "\<not> justScanned s \<Longrightarrow> justScanned (snd (handleDecode_p1 coll P now raw s)) \<and>
     timers (snd (handleDecode_p1 coll P now raw s)) = (now + 1200) # timers s"
  by (simp add: handleDecode_p1_def Let_def beginScan_def addEntryPage_def
      split: option.splits prod.splits)

lemma handleDecode_p1_Discarded:
  "fst (handleDecode_p1 coll P now raw s) = Discarded_debounce \<longleftrightarrow> justScanned s"
  by (simp add: handleDecode_p1_def Let_def addEntryPage_def addEntry_def
      split: option.splits prod.splits)

lemma handleDecode_p1_justScanned:
  "justScanned s \<Longrightarrow> handleDecode_p1 coll P now raw s = (Discarded_debounce, s)"
  by (simp add: handleDecode_p1_def)

lemma debounceInv_handleDecode_p1:
  "debounceInv s \<Longrightarrow> debounceInv (snd (handleDecode_p1 coll P now raw s))"
proof (cases "justScanned s")
  case True
  assume "debounceInv s"
  then show ?thesis using True by (simp add: handleDecode_p1_def)
next
  case False
  assume "debounceInv s"
  then show ?thesis using False by (simp add: debounceInv_def handleDecode_p1_timers)
qed

lemma debounceInv_deliver_p1:
  assumes d: "debounceInv s"
  shows "debounceInv (deliver_p1 coll P ev s)"
proof -
  obtain now e where ev: "ev = (now, e)" by (cases ev)
  have f: "debounceInv (fireTimers now s)" using d by (rule debounceInv_fireTimers)
  show ?thesis
  proof (cases e)
    case (Scan1 v)
    then show ?thesis using f ev by (simp add: debounceInv_handleDecode_p1)
  next
    case (TypeName1 v)
    then show ?thesis using f ev by (simp add: debounceInv_def)
  next
    case ClickAdd1
    then show ?thesis using f ev
      by (simp add: debounceInv_def handleManualAdd_p1_def addEntryPage_def split: prod.splits)
  next
    case (ClickClear1 fresh)
    then show ?thesis using f ev
      by (simp add: debounceInv_def clearAll_p1_def split: prod.splits)
  next
    case (Reload1 fresh)
    then show ?thesis using ev
      by (simp add: debounceInv_def mounted_p1_def mountEffect_p1_def initialPage_p1_def
          split: prod.splits)
  qed
qed

lemma debounceInv_run_p1: "debounceInv (run_p1 coll P evs (mounted_p1 fresh ls))"
proof (induction evs rule: rev_induct)
  case Nil
  show ?case
    by (simp add: run_p1_def debounceInv_def mounted_p1_def mountEffect_p1_def
        initialPage_p1_def split: prod.splits)
next
  case (snoc ev evs)
  then show ?case by (simp add: run_p1_def debounceInv_deliver_p1)
qed

lemma armed_deliver_p1:
  assumes "justScanned s" "timers s = [due]" "beforeDue_p1 due ev"
  shows "justScanned (deliver_p1 coll P ev s) \<and> timers (deliver_p1 coll P ev s) = [due]"
proof -
  obtain now e where ev: "ev = (now, e)" by (cases ev)
  show ?thesis
  proof (cases e)
    case (Reload1 fresh)
    then show ?thesis using assms ev by simp
  next
    case (Scan1 v)
    then have "now < due" using assms ev by simp
    then have "fireTimers now s = s" using assms by (simp add: fireTimers_armed)
    then show ?thesis using assms ev Scan1 by (simp add: handleDecode_p1_justScanned)
  next
    case (TypeName1 v)
    then have "now < due" using assms ev by simp
    then have "fireTimers now s = s" using assms by (simp add: fireTimers_armed)
    then show ?thesis using assms ev TypeName1 by simp
  next
    case ClickAdd1
    then have "now < due" using assms ev by simp
    then have "fireTimers now s = s" using assms by (simp add: fireTimers_armed)
    then show ?thesis using assms ev ClickAdd1
      by (simp add: handleManualAdd_p1_def addEntryPage_def split: prod.splits)
  next
    case (ClickClear1 fresh)
    then have "now < due" using assms ev by simp
    then have "fireTimers now s = s" using assms by (simp add: fireTimers_armed)
    then show ?thesis using assms ev ClickClear1
      by (simp add: clearAll_p1_def split: prod.splits)
  qed
qed

lemma armed_run_p1:
  "justScanned s \<Longrightarrow> timers s = [due] \<Longrightarrow> list_all (beforeDue_p1 due) evs \<Longrightarrow>
     justScanned (run_p1 coll P evs s) \<and> timers (run_p1 coll P evs s) = [due]"
proof (induction evs rule: rev_induct)
  case Nil
  then show ?case by (simp add: run_p1_def)
next
  case (snoc ev evs)
  then have a: "justScanned (run_p1 coll P evs s)" "timers (run_p1 coll P evs s) = [due]"
    and b: "beforeDue_p1 due ev" by simp_all
  have "run_p1 coll P (evs @ [ev]) s = deliver_p1 coll P ev (run_p1 coll P evs s)"
    by (simp add: run_p1_def)
  then show ?case using armed_deliver_p1 [OF a b] by simp
qed

lemma window_p1:
  assumes inv: "debounceInv s"
    and first: "fst (scanAt_p1 coll P t0 raw s) \<noteq> Discarded_debounce"
  shows "(list_all (beforeDue_p1 (t0 + 1200)) evsN \<and> t1 < t0 + 1200 \<longrightarrow>
           scanAt_p1 coll P t1 raw' (run_p1 coll P evsN (snd (scanAt_p1 coll P t0 raw s)))
             = (Discarded_debounce, run_p1 coll P evsN (snd (scanAt_p1 coll P t0 raw s))))
       \<and> (t0 + 1200 \<le> t1 \<longrightarrow>
           fst (scanAt_p1 coll P t1 raw' (snd (scanAt_p1 coll P t0 raw s)))
             \<noteq> Discarded_debounce)"
proof -
  let ?f = "fireTimers t0 s"
  let ?s1 = "snd (scanAt_p1 coll P t0 raw s)"
  have nj: "\<not> justScanned ?f"
    using first by (simp add: scanAt_p1_def handleDecode_p1_Discarded)
  have "debounceInv ?f" using inv by (rule debounceInv_fireTimers)
  then have "timers ?f = []" using nj by (simp add: debounceInv_def)
  then have t: "justScanned ?s1" "timers ?s1 = [t0 + 1200]"
    using handleDecode_p1_timers [OF nj, of coll P t0 raw] by (simp_all add: scanAt_p1_def)
  have a: "scanAt_p1 coll P t1 raw' (run_p1 coll P evsN ?s1)
             = (Discarded_debounce, run_p1 coll P evsN ?s1)"
    if "list_all (beforeDue_p1 (t0 + 1200)) evsN" "t1 < t0 + 1200"
  proof -
    have r: "justScanned (run_p1 coll P evsN ?s1)" "timers (run_p1 coll P evsN ?s1) = [t0 + 1200]"
      using armed_run_p1 [OF t that(1)] by simp_all
    then have "fireTimers t1 (run_p1 coll P evsN ?s1) = run_p1 coll P evsN ?s1"
      using that(2) by (simp add: fireTimers_armed)
    then show ?thesis using r by (simp add: scanAt_p1_def handleDecode_p1_justScanned)
  qed
  have b: "fst (scanAt_p1 coll P t1 raw' ?s1) \<noteq> Discarded_debounce" if "t0 + 1200 \<le> t1"
    using fireTimers_due [OF t(2) that] by (simp add: scanAt_p1_def handleDecode_p1_Discarded)
  show ?thesis using a b by blast
qed

lemma handleDecode_p2_timers:
  "\<not> justScanned s \<Longrightarrow> justScanned (snd (handleDecode_p2 coll now raw s)) \<and>
     timers (snd (handleDecode_p2 coll now raw s)) = (now + 1200) # timers s"
  by (simp add: handleDecode_p2_def Let_def beginScan_def addEntryPage_def split: prod.splits)

lemma handleDecode_p2_Discarded:
  "fst (handleDecode_p2 coll now raw s) = Discarded_debounce \<longleftrightarrow> justScanned s"
  by (simp add: handleDecode_p2_def Let_def addEntryPage_def addEntry_def split: prod.splits)

lemma handleDecode_p2_justScanned:
  "justScanned s \<Longrightarrow> handleDecode_p2 coll now raw s = (Discarded_debounce, s)"
  by (simp add: handleDecode_p2_def)

lemma debounceInv_forceSelfEffect: "debounceInv (forceSelfEffect s) = debounceInv s"
  by (simp add: debounceInv_def forceSelfEffect_def)

lemma debounceInv_handle_p2:
  assumes d: "debounceInv s"
  shows "debounceInv (handle_p2 coll env now ev s)"
proof (cases ev)
  case (Scan v)
  show ?thesis
  proof (cases "justScanned s")
    case True
    then show ?thesis using d Scan by (simp add: handleDecode_p2_justScanned)
  next
    case False
    then show ?thesis using d Scan by (simp add: debounceInv_def handleDecode_p2_timers)
  qed
next
  case ClickAdd
  then show ?thesis using d
    by (simp add: debounceInv_def handleManualAdd_p2_def addEntryPage_def split: prod.splits)
next
  case (Reload fresh)
  then show ?thesis
    by (simp add: debounceInv_def mountEffect_p2_def initialPage_p2_def split: prod.splits)
qed (use d in \<open>simp_all add: debounceInv_def unlock_def clearAll_p2_def\<close>)

lemma debounceInv_run_p2: "debounceInv (run_p2 coll env evs (mounted_p2 fresh ls))"
proof (induction evs rule: rev_induct)
  case Nil
  show ?case
    by (simp add: run_p2_def debounceInv_def mounted_p2_def mountEffect_p2_def
        initialPage_p2_def forceSelfEffect_def split: prod.splits)
next
  case (snoc ev evs)
  then show ?case
    by (simp add: run_p2_snoc deliver_p2_def debounceInv_forceSelfEffect debounceInv_handle_p2
        debounceInv_fireTimers)
qed

lemma armed_deliver_p2:
  assumes "justScanned s" "timers s = [due]" "beforeDue_p2 due ev"
  shows "justScanned (deliver_p2 coll env ev s) \<and> timers (deliver_p2 coll env ev s) = [due]"
proof -
  obtain now e where ev: "ev = (now, e)" by (cases ev)
  show ?thesis
  proof (cases e)
    case (Reload fresh)
    then show ?thesis using assms ev by simp
  next
    case (Scan v)
    then have "now < due" using assms ev by simp
    then have "fireTimers now s = s" using assms by (simp add: fireTimers_armed)
    then show ?thesis using assms ev Scan
      by (simp add: deliver_p2_def handleDecode_p2_justScanned forceSelfEffect_def)
  next
    case ClickAdd
    then have "now < due" using assms ev by simp
    then have "fireTimers now s = s" using assms by (simp add: fireTimers_armed)
    then show ?thesis using assms ev ClickAdd
      by (simp add: deliver_p2_def forceSelfEffect_def handleManualAdd_p2_def addEntryPage_def
          split: prod.splits)
  next
    case (TypeName v)
    then have "now < due" using assms ev by simp
    then have "fireTimers now s = s" using assms by (simp add: fireTimers_armed)
    then show ?thesis using assms ev TypeName by (simp add: deliver_p2_def forceSelfEffect_def)
  next
    case (TypePin v)
    then have "now < due" using assms ev by simp
    then have "fireTimers now s = s" using assms by (simp add: fireTimers_armed)
    then show ?thesis using assms ev TypePin by (simp add: deliver_p2_def forceSelfEffect_def)
  next
    case ClickUnlock
    then have "now < due" using assms ev by simp
    then have "fireTimers now s = s" using assms by (simp add: fireTimers_armed)
    then show ?thesis using assms ev ClickUnlock
      by (simp add: deliver_p2_def forceSelfEffect_def unlock_def)
  next
    case (SelectMode m)
    then have "now < due" using assms ev by simp
    then have "fireTimers now s = s" using assms by (simp add: fireTimers_armed)
    then show ?thesis using assms ev SelectMode by (simp add: deliver_p2_def forceSelfEffect_def)
  next
    case ClickClear
    then have "now < due" using assms ev by simp
    then have "fireTimers now s = s" using assms by (simp add: fireTimers_armed)
    then show ?thesis using assms ev ClickClear
      by (simp add: deliver_p2_def forceSelfEffect_def clearAll_p2_def)
  qed
qed

lemma armed_run_p2:
  "justScanned s \<Longrightarrow> timers s = [due] \<Longrightarrow> list_all (beforeDue_p2 due) evs \<Longrightarrow>
     justScanned (run_p2 coll env evs s) \<and> timers (run_p2 coll env evs s) = [due]"
proof (induction evs rule: rev_induct)
  case Nil
  then show ?case by (simp add: run_p2_def)
next
  case (snoc ev evs)
  then have a: "justScanned (run_p2 coll env evs s)" "timers (run_p2 coll env evs s) = [due]"
    and b: "beforeDue_p2 due ev" by simp_all
  show ?case using armed_deliver_p2 [OF a b] by (simp add: run_p2_snoc)
qed

lemma window_p2:
  assumes inv: "debounceInv s"
    and first: "fst (scanAt_p2 coll t0 raw s) \<noteq> Discarded_debounce"
  shows "(list_all (beforeDue_p2 (t0 + 1200)) evsN \<and> t1 < t0 + 1200 \<longrightarrow>
           scanAt_p2 coll t1 raw' (run_p2 coll env evsN (snd (scanAt_p2 coll t0 raw s)))
             = (Discarded_debounce, run_p2 coll env evsN (snd (scanAt_p2 coll t0 raw s))))
       \<and> (t0 + 1200 \<le> t1 \<longrightarrow>
           fst (scanAt_p2 coll t1 raw' (snd (scanAt_p2 coll t0 raw s)))
             \<noteq> Discarded_debounce)"
proof -
  let ?f = "fireTimers t0 s"
  let ?s1 = "snd (scanAt_p2 coll t0 raw s)"
  have nj: "\<not> justScanned ?f"
    using first by (simp add: scanAt_p2_def handleDecode_p2_Discarded)
  have "debounceInv ?f" using inv by (rule debounceInv_fireTimers)
  then have "timers ?f = []" using nj by (simp add: debounceInv_def)
  then have t: "justScanned ?s1" "timers ?s1 = [t0 + 1200]"
    using handleDecode_p2_timers [OF nj, of coll t0 raw] by (simp_all add: scanAt_p2_def)
  have a: "scanAt_p2 coll t1 raw' (run_p2 coll env evsN ?s1)
             = (Discarded_debounce, run_p2 coll env evsN ?s1)"
    if "list_all (beforeDue_p2 (t0 + 1200)) evsN" "t1 < t0 + 1200"
  proof -
    have r: "justScanned (run_p2 coll env evsN ?s1)"
      "timers (run_p2 coll env evsN ?s1) = [t0 + 1200]"
      using armed_run_p2 [OF t that(1)] by simp_all
    then have "fireTimers t1 (run_p2 coll env evsN ?s1) = run_p2 coll env evsN ?s1"
      using that(2) by (simp add: fireTimers_armed)
    then show ?thesis using r by (simp add: scanAt_p2_def handleDecode_p2_justScanned)
  qed
  have b: "fst (scanAt_p2 coll t1 raw' ?s1) \<noteq> Discarded_debounce" if "t0 + 1200 \<le> t1"
    using fireTimers_due [OF t(2) that] by (simp add: scanAt_p2_def handleDecode_p2_Discarded)
  show ?thesis using a b by blast
qed

lemma window_scan_log:
  assumes first: "fst (handleDecoded P t0 raw s) \<noteq> Discarded_debounce"
  shows "(fst (handleDecoded P t1 raw' (snd (handleDecoded P t0 raw s))) = Discarded_debounce
            \<longleftrightarrow> raw' = raw \<and> t1 < t0 + 1500)
    \<and> (raw' = raw \<and> t1 < t0 + 1500 \<longrightarrow>
          snd (handleDecoded P t1 raw' (snd (handleDecoded P t0 raw s)))
            = snd (handleDecoded P t0 raw s))"
proof -
  let ?s1 = "snd (handleDecoded P t0 raw s)"
  have l: "lastRawRef ?s1 = raw \<and> lastTimeRef ?s1 = t0"
    using first by (auto simp: handleDecoded_def Let_def split: if_splits)
  have nd: "fst (handleDecoded P t r x) = Discarded_debounce
      \<longleftrightarrow> (lastRawRef x = r \<and> int t - int (lastTimeRef x) < 1500)" for t r x
    by (simp add: handleDecoded_def Let_def)
  have d: "snd (handleDecoded P t r x) = x"
    if "lastRawRef x = r \<and> int t - int (lastTimeRef x) < 1500" for t r x
    using that by (simp add: handleDecoded_def)
  show ?thesis using l d [of ?s1 raw' t1] by (auto simp: nd)
qed

text \<open>
  C6 (as stated): of two decode events with the same text less than 1500 ms apart the
  second is discarded. On the page of part 001 the guard is the \<open>justScanned\<close> flag, cleared
  by a timeout of 1200 ms: "Ann" scanned at 1000 and again at 2300 is handled twice, first
  accepted, then rejected as a duplicate name.
\<close>

theorem C6_window_1200_counterexample:
  "fst (handleDecode_p1 sampleCollator sampleParse 1000 (js ''Ann'')
          (fireTimers 1000 (mounted_p1 (js ''scanner-1'') emptyStorage))) = Accepted
   \<and> fst (handleDecode_p1 sampleCollator sampleParse 2300 (js ''Ann'')
          (fireTimers 2300 (snd (handleDecode_p1 sampleCollator sampleParse 1000 (js ''Ann'')
             (fireTimers 1000 (mounted_p1 (js ''scanner-1'') emptyStorage))))))
       \<noteq> Discarded_debounce"
  by (simp add: p1_defs sampleParse_def sample_defs)

text \<open>
  C6 (amended): on the scan-log page, the decode event that follows a handled one is
  discarded exactly when it carries the same text and comes less than 1500 ms after it,
  and then it changes nothing. On the page of part 001 and on the page with the lock, in
  every reachable state, after a handled decode event every decode event of the same page
  instance (other events may come in between, a reload may not) that comes less than
  1200 ms after it is discarded, whatever its text, and changes nothing; the decode event
  that follows it 1200 ms or more later is handled. In each case a handled event and a
  discarded one give exactly one outcome.
\<close>

theorem C6_debounce_windows:
  "(fst (handleDecoded P t0 raw s) \<noteq> Discarded_debounce \<longrightarrow>
      (fst (handleDecoded P t1 raw' (snd (handleDecoded P t0 raw s))) = Discarded_debounce
         \<longleftrightarrow> raw' = raw \<and> t1 < t0 + 1500)
      \<and> (raw' = raw \<and> t1 < t0 + 1500 \<longrightarrow>
            snd (handleDecoded P t1 raw' (snd (handleDecoded P t0 raw s)))
              = snd (handleDecoded P t0 raw s)))
   \<and> (fst (scanAt_p1 coll P t0 raw (run_p1 coll P evs (mounted_p1 fresh ls)))
        \<noteq> Discarded_debounce \<longrightarrow>
      (list_all (beforeDue_p1 (t0 + 1200)) evsA \<and> t1 < t0 + 1200 \<longrightarrow>
          scanAt_p1 coll P t1 raw'
            (run_p1 coll P evsA
               (snd (scanAt_p1 coll P t0 raw (run_p1 coll P evs (mounted_p1 fresh ls)))))
          = (Discarded_debounce,
             run_p1 coll P evsA
               (snd (scanAt_p1 coll P t0 raw (run_p1 coll P evs (mounted_p1 fresh ls))))))
      \<and> (t0 + 1200 \<le> t1 \<longrightarrow>
          fst (scanAt_p1 coll P t1 raw'
                 (snd (scanAt_p1 coll P t0 raw (run_p1 coll P evs (mounted_p1 fresh ls)))))
          \<noteq> Discarded_debounce))
   \<and> (fst (scanAt_p2 coll t0 raw (run_p2 coll env evsL (mounted_p2 fresh ls)))
        \<noteq> Discarded_debounce \<longrightarrow>
      (list_all (beforeDue_p2 (t0 + 1200)) evsB \<and> t1 < t0 + 1200 \<longrightarrow>
          scanAt_p2 coll t1 raw'
            (run_p2 coll env evsB
               (snd (scanAt_p2 coll t0 raw (run_p2 coll env evsL (mounted_p2 fresh ls)))))
          = (Discarded_debounce,
             run_p2 coll env evsB
               (snd (scanAt_p2 coll t0 raw (run_p2 coll env evsL (mounted_p2 fresh ls))))))
      \<and> (t0 + 1200 \<le> t1 \<longrightarrow>
          fst (scanAt_p2 coll t1 raw'
                 (snd (scanAt_p2 coll t0 raw (run_p2 coll env evsL (mounted_p2 fresh ls)))))
          \<noteq> Discarded_debounce))"
  using window_scan_log [where P = P and ?t0.0 = t0 and raw = raw and s = s and ?t1.0 = t1
      and raw' = raw']
    window_p1 [where s = "run_p1 coll P evs (mounted_p1 fresh ls)" and coll = coll and P = P
      and ?t0.0 = t0 and raw = raw and evsN = evsA and ?t1.0 = t1 and raw' = raw',
      OF debounceInv_run_p1]
    window_p2 [where s = "run_p2 coll env evsL (mounted_p2 fresh ls)" and coll = coll
      and env = env and ?t0.0 = t0 and raw = raw and evsN = evsB and ?t1.0 = t1
      and raw' = raw', OF debounceInv_run_p2]
  by blast

theorem C6_debounce_windows_witness:
  "fst (handleDecoded sampleParse 1000 (js ''Ann'') initialScanLog) = Accepted
   \<and> fst (handleDecoded sampleParse 2400 (js ''Ann'')
          (snd (handleDecoded sampleParse 1000 (js ''Ann'') initialScanLog))) = Discarded_debounce
   \<and> fst (scanAt_p1 sampleCollator sampleParse 1000 (js ''Ann'')
          (run_p1 sampleCollator sampleParse [] (mounted_p1 (js ''scanner-1'') emptyStorage)))
       = Accepted
   \<and> list_all (beforeDue_p1 (1000 + 1200)) [(1500, TypeName1 (js ''Bo''))]
   \<and> fst (scanAt_p1 sampleCollator sampleParse 2100 (js ''Bob'')
          (run_p1 sampleCollator sampleParse [(1500, TypeName1 (js ''Bo''))]
            (snd (scanAt_p1 sampleCollator sampleParse 1000 (js ''Ann'')
              (run_p1 sampleCollator sampleParse [] (mounted_p1 (js ''scanner-1'') emptyStorage))))))
       = Discarded_debounce
   \<and> fst (scanAt_p2 sampleCollator 1000 (js ''Ann'')
          (run_p2 sampleCollator None [] (mounted_p2 (js ''scanner-1'') emptyStorage)))
       = SelfConfirmed
   \<and> list_all (beforeDue_p2 (1000 + 1200)) [(1500, ClickClear)]
   \<and> fst (scanAt_p2 sampleCollator 2100 (js ''Bob'')
          (run_p2 sampleCollator None [(1500, ClickClear)]
            (snd (scanAt_p2 sampleCollator 1000 (js ''Ann'')
              (run_p2 sampleCollator None [] (mounted_p2 (js ''scanner-1'') emptyStorage))))))
       = Discarded_debounce"
proof -
  have a: "fst (handleDecoded sampleParse 1000 (js ''Ann'') initialScanLog) = Accepted"
    by (simp add: handleDecoded_def initialScanLog_def parseDeviceIdFromQrPayload_def Let_def
        sampleParse_def js_def trim_def isWhiteSpace_def)
  have b: "fst (scanAt_p1 sampleCollator sampleParse 1000 (js ''Ann'')
          (run_p1 sampleCollator sampleParse [] (mounted_p1 (js ''scanner-1'') emptyStorage)))
       = Accepted"
    by (simp add: p1_defs sampleParse_def js_def trim_def isWhiteSpace_def)
  have c: "fst (scanAt_p2 sampleCollator 1000 (js ''Ann'')
          (run_p2 sampleCollator None [] (mounted_p2 (js ''scanner-1'') emptyStorage)))
       = SelfConfirmed"
    by (simp add: scanAt_p2_def p2_defs)
  have l: "list_all (beforeDue_p1 (1000 + 1200)) [(1500, TypeName1 (js ''Bo''))]"
    "list_all (beforeDue_p2 (1000 + 1200)) [(1500, ClickClear)]"
    by simp_all
  note w1 = C6_debounce_windows
      [where P = sampleParse and ?t0.0 = 1000 and raw = "js ''Ann''" and s = initialScanLog
         and ?t1.0 = 2400 and raw' = "js ''Ann''"]
  note w2 = C6_debounce_windows
      [where P = sampleParse and ?t0.0 = 1000 and raw = "js ''Ann''" and coll = sampleCollator
         and ?t1.0 = 2100 and raw' = "js ''Bob''" and evs = "[]" and fresh = "js ''scanner-1''"
         and ls = emptyStorage and evsA = "[(1500, TypeName1 (js ''Bo''))]" and env = None
         and evsL = "[]" and evsB = "[(1500, ClickClear)]"]
  have d1: "fst (handleDecoded sampleParse 2400 (js ''Ann'')
          (snd (handleDecoded sampleParse 1000 (js ''Ann'') initialScanLog))) = Discarded_debounce"
    using a w1 by simp
  have d2: "fst (scanAt_p1 sampleCollator sampleParse 2100 (js ''Bob'')
          (run_p1 sampleCollator sampleParse [(1500, TypeName1 (js ''Bo''))]
            (snd (scanAt_p1 sampleCollator sampleParse 1000 (js ''Ann'')
              (run_p1 sampleCollator sampleParse [] (mounted_p1 (js ''scanner-1'') emptyStorage))))))
       = Discarded_debounce"
    using b l w2 by simp
  have d3: "fst (scanAt_p2 sampleCollator 2100 (js ''Bob'')
          (run_p2 sampleCollator None [(1500, ClickClear)]
            (snd (scanAt_p2 sampleCollator 1000 (js ''Ann'')
              (run_p2 sampleCollator None [] (mounted_p2 (js ''scanner-1'') emptyStorage))))))
       = Discarded_debounce"
    using c l w2 by simp
  show ?thesis using a b c l d1 d2 d3 by blast
qed

section \<open>Properties of the page of part 001\<close>

lemma ownDeviceInv_fireTimers: "ownDeviceInv (fireTimers now s) = ownDeviceInv s"
  by (simp add: ownDeviceInv_def fireTimers_def)

lemma ownDeviceInv_addEntryPage: "ownDeviceInv s \<Longrightarrow> ownDeviceInv (snd (addEntryPage coll now raw s))"
  by (auto simp: ownDeviceInv_def addEntryPage_def addEntry_def Let_def writeAttendance_def
      readAttendance_def split: prod.splits if_splits)

lemma ownDeviceInv_beginScan: "ownDeviceInv (beginScan now s) = ownDeviceInv s"
  by (simp add: ownDeviceInv_def beginScan_def)

lemma ownDeviceInv_scanError: "ownDeviceInv (s\<lparr>scanError := x\<rparr>) = ownDeviceInv s"
  by (simp add: ownDeviceInv_def)

lemma ownDeviceInv_manualName: "ownDeviceInv (s\<lparr>manualName := x\<rparr>) = ownDeviceInv s"
  by (simp add: ownDeviceInv_def)

lemma ownDeviceInv_handleDecode_p1:
  "ownDeviceInv s \<Longrightarrow> ownDeviceInv (snd (handleDecode_p1 coll P now raw s))"
  by (simp add: handleDecode_p1_def Let_def ownDeviceInv_beginScan ownDeviceInv_scanError
      ownDeviceInv_addEntryPage split: option.splits)

lemma ownDeviceInv_handleManualAdd_p1:
  "ownDeviceInv s \<Longrightarrow> ownDeviceInv (snd (handleManualAdd_p1 coll now s))"
  using ownDeviceInv_addEntryPage [of s coll now "manualName s"]
  by (auto simp: handleManualAdd_p1_def ownDeviceInv_manualName split: prod.splits)

lemma ownDeviceInv_clearAll_p1: "fresh \<noteq> [] \<Longrightarrow> ownDeviceInv (clearAll_p1 fresh s)"
  by (simp add: clearAll_p1_def getOrCreateDeviceId_def ownDeviceInv_def writeAttendance_def
      readAttendance_def)

lemma ownDeviceInv_remount: "ownDeviceInv s \<Longrightarrow> ownDeviceInv (mounted_p1 fresh (storage s))"
  by (simp add: mounted_p1_def mountEffect_p1_def initialPage_p1_def getOrCreateDeviceId_def
      ownDeviceInv_def)

lemma ownDeviceInv_mounted: "fresh \<noteq> [] \<Longrightarrow> ownDeviceInv (mounted_p1 fresh emptyStorage)"
  by (simp add: mounted_p1_def mountEffect_p1_def initialPage_p1_def getOrCreateDeviceId_def
      ownDeviceInv_def emptyStorage_def readAttendance_def)

lemma ownDeviceInv_deliver_p1:
  assumes o: "ownDeviceInv s" and f: "freshOk ev"
  shows "ownDeviceInv (deliver_p1 coll P ev s)"
proof -
  obtain now e where ev: "ev = (now, e)" by (cases ev)
  show ?thesis using o f unfolding ev
    by (cases e)
      (simp_all add: ownDeviceInv_fireTimers ownDeviceInv_handleDecode_p1
        ownDeviceInv_handleManualAdd_p1 ownDeviceInv_clearAll_p1 ownDeviceInv_remount
        ownDeviceInv_manualName)
qed

lemma ownDeviceInv_run_p1:
  "freshId \<noteq> [] \<Longrightarrow> list_all freshOk evs \<Longrightarrow>
     ownDeviceInv (run_p1 coll P evs (mounted_p1 freshId emptyStorage))"
  by (induction evs rule: rev_induct)
    (simp_all add: run_p1_def ownDeviceInv_mounted ownDeviceInv_deliver_p1)

lemma handleDecode_p1_record:
  "fst (handleDecode_p1 coll P now raw s) = Accepted \<Longrightarrow>
     \<exists>n. entries (snd (handleDecode_p1 coll P now raw s))
            = \<lparr>name = n, deviceId = deviceIdRef s, timestamp = now\<rparr> # entries s"
  by (auto simp: handleDecode_p1_def Let_def beginScan_def addEntryPage_def addEntry_def
      split: option.splits if_splits prod.splits)

lemma handleDecode_p1_device_check:
  assumes "ownDeviceInv s"
  shows "fst (handleDecode_p1 coll P now raw s) = Rejected_DuplicateDevice \<longleftrightarrow>
     \<not> justScanned s \<and> entries s \<noteq> []
     \<and> incoming (scannedObject P raw) (js ''deviceId'') = Some (deviceIdRef s)
     \<and> (\<exists>n. incoming (scannedObject P raw) (js ''name'') = Some n \<and> n \<noteq> [])"
proof -
  have ex: "list_ex (\<lambda>e. deviceId e = d) (entries s) \<longleftrightarrow> entries s \<noteq> [] \<and> d = deviceIdRef s" for d
    using assms by (cases "entries s") (auto simp: ownDeviceInv_def list_ex_iff list_all_iff)
  have ne: "deviceIdRef s \<noteq> []" using assms by (simp add: ownDeviceInv_def)
  show ?thesis
    using ne
    by (auto simp: handleDecode_p1_def Let_def ex addEntryPage_def addEntry_def
        split: option.splits prod.splits)
qed

text \<open>
  C9 (as stated): a payload whose deviceId differs from the scanner's own is never rejected
  by the "already checked in" test. The test compares the trimmed deviceId: on a page
  with device id \<open>scanner-1\<close> that holds one record, a payload whose deviceId is
  \<open>scanner-1\<close> between two blanks differs from the page's id and is rejected by the test.
\<close>

theorem C9_trimmed_id_counterexample:
  \<open>ownField (scannedObject sampleParse (js ''{"name":"Bob","deviceId":" scanner-1 "}''))
       (js ''deviceId'') = Some (JStr (js '' scanner-1 ''))
   \<and> deviceIdRef (snd (scanAt_p1 sampleCollator sampleParse 1000 (js ''Ann'')
        (mounted_p1 (js ''scanner-1'') emptyStorage))) = js ''scanner-1''
   \<and> js '' scanner-1 '' \<noteq> js ''scanner-1''
   \<and> fst (scanAt_p1 sampleCollator sampleParse 3000 (js ''{"name":"Bob","deviceId":" scanner-1 "}'')
        (snd (scanAt_p1 sampleCollator sampleParse 1000 (js ''Ann'')
           (mounted_p1 (js ''scanner-1'') emptyStorage)))) = Rejected_DuplicateDevice\<close>
  by (simp add: p1_defs sampleParse_def sample_defs)

text \<open>
  C9 (amended): on the page of part 001 a record that \<open>addEntry\<close> appends carries the
  page's own device id, whatever the scanned payload says. Starting from a fresh browser
  storage, after any events (scans, manual entries, clearing, reloads), every record of
  the ledger carries the page's current device id; a scan that is accepted puts such a
  record in front; and the "already checked in" test rejects a scan exactly when the scan
  is handled, carries a name, the ledger is not empty and the payload's deviceId, trimmed,
  is the page's own. A payload whose trimmed deviceId differs from the page's own is never
  rejected by that test.
\<close>

theorem C9_records_carry_scanner_device_id:
  "(fst (addEntry coll dev now nm es) = Accepted \<longrightarrow>
      snd (addEntry coll dev now nm es) = \<lparr>name = trim nm, deviceId = dev, timestamp = now\<rparr> # es)
   \<and> (freshId \<noteq> [] \<and> list_all freshOk evs \<longrightarrow>
        list_all (\<lambda>e. deviceId e = deviceIdRef (run_p1 coll P evs (mounted_p1 freshId emptyStorage)))
          (entries (run_p1 coll P evs (mounted_p1 freshId emptyStorage)))
        \<and> (fst (handleDecode_p1 coll P now raw (run_p1 coll P evs (mounted_p1 freshId emptyStorage)))
              = Accepted
             \<longrightarrow> (\<exists>n. entries (snd (handleDecode_p1 coll P now raw
                           (run_p1 coll P evs (mounted_p1 freshId emptyStorage))))
                    = \<lparr>name = n,
                       deviceId = deviceIdRef (run_p1 coll P evs (mounted_p1 freshId emptyStorage)),
                       timestamp = now\<rparr>
                      # entries (run_p1 coll P evs (mounted_p1 freshId emptyStorage))))
        \<and> (fst (handleDecode_p1 coll P now raw (run_p1 coll P evs (mounted_p1 freshId emptyStorage)))
              = Rejected_DuplicateDevice
             \<longleftrightarrow> \<not> justScanned (run_p1 coll P evs (mounted_p1 freshId emptyStorage))
                 \<and> entries (run_p1 coll P evs (mounted_p1 freshId emptyStorage)) \<noteq> []
                 \<and> incoming (scannedObject P raw) (js ''deviceId'')
                     = Some (deviceIdRef (run_p1 coll P evs (mounted_p1 freshId emptyStorage)))
                 \<and> (\<exists>n. incoming (scannedObject P raw) (js ''name'') = Some n \<and> n \<noteq> []))
        \<and> (incoming (scannedObject P raw) (js ''deviceId'')
              \<noteq> Some (deviceIdRef (run_p1 coll P evs (mounted_p1 freshId emptyStorage)))
             \<longrightarrow> fst (handleDecode_p1 coll P now raw (run_p1 coll P evs (mounted_p1 freshId emptyStorage)))
                   \<noteq> Rejected_DuplicateDevice))"
proof -
  let ?S = "run_p1 coll P evs (mounted_p1 freshId emptyStorage)"
  have add: "snd (addEntry coll dev now nm es) = \<lparr>name = trim nm, deviceId = dev, timestamp = now\<rparr> # es"
    if "fst (addEntry coll dev now nm es) = Accepted"
    using that by (rule addEntry_Accepted)
  have inv: "ownDeviceInv ?S" if "freshId \<noteq> []" "list_all freshOk evs"
    using that by (rule ownDeviceInv_run_p1)
  have all: "list_all (\<lambda>e. deviceId e = deviceIdRef ?S) (entries ?S)"
    if "freshId \<noteq> []" "list_all freshOk evs"
    using inv [OF that] by (simp add: ownDeviceInv_def)
  have chk: "fst (handleDecode_p1 coll P now raw ?S) = Rejected_DuplicateDevice
             \<longleftrightarrow> \<not> justScanned ?S \<and> entries ?S \<noteq> []
                 \<and> incoming (scannedObject P raw) (js ''deviceId'') = Some (deviceIdRef ?S)
                 \<and> (\<exists>n. incoming (scannedObject P raw) (js ''name'') = Some n \<and> n \<noteq> [])"
    if "freshId \<noteq> []" "list_all freshOk evs"
    using inv [OF that] by (rule handleDecode_p1_device_check)
  show ?thesis
    using add all chk handleDecode_p1_record [of coll P now raw ?S] by blast
qed

theorem C9_records_witness:
  \<open>js ''scanner-1'' \<noteq> []
   \<and> list_all freshOk [(1000, Scan1 (js ''{"name":"Ann","deviceId":"d1"}'')), (3000, TypeName1 [])]
   \<and> map deviceId (entries (run_p1 sampleCollator sampleParse
         [(1000, Scan1 (js ''{"name":"Ann","deviceId":"d1"}'')), (3000, TypeName1 [])]
         (mounted_p1 (js ''scanner-1'') emptyStorage))) = [js ''scanner-1'']
   \<and> incoming (scannedObject sampleParse (js ''{"name":"Ann","deviceId":"d1"}'')) (js ''deviceId'')
        = Some (js ''d1'')
   \<and> fst (handleDecode_p1 sampleCollator sampleParse 3001 (js ''{"name":"Ann","deviceId":"d1"}'')
        (run_p1 sampleCollator sampleParse
           [(1000, Scan1 (js ''{"name":"Ann","deviceId":"d1"}'')), (3000, TypeName1 [])]
           (mounted_p1 (js ''scanner-1'') emptyStorage))) \<noteq> Rejected_DuplicateDevice\<close>
proof -
  have f: "js ''scanner-1'' \<noteq> []" by (simp add: js_def)
  have l: \<open>list_all freshOk
      [(1000, Scan1 (js ''{"name":"Ann","deviceId":"d1"}'')), (3000, TypeName1 [])]\<close>
    by simp
  have i: \<open>incoming (scannedObject sampleParse (js ''{"name":"Ann","deviceId":"d1"}''))
      (js ''deviceId'') = Some (js ''d1'')\<close>
    by (simp add: scannedObject_def sampleParse_def incoming_def js_def trim_def isWhiteSpace_def)
  have e: \<open>entries (run_p1 sampleCollator sampleParse
         [(1000, Scan1 (js ''{"name":"Ann","deviceId":"d1"}'')), (3000, TypeName1 [])]
         (mounted_p1 (js ''scanner-1'') emptyStorage))
       = [\<lparr>name = js ''Ann'', deviceId = js ''scanner-1'', timestamp = 1000\<rparr>]\<close>
    by (simp add: p1_defs sampleParse_def js_def trim_def isWhiteSpace_def)
  have d: \<open>deviceIdRef (run_p1 sampleCollator sampleParse
         [(1000, Scan1 (js ''{"name":"Ann","deviceId":"d1"}'')), (3000, TypeName1 [])]
         (mounted_p1 (js ''scanner-1'') emptyStorage)) = js ''scanner-1''\<close>
    by (simp add: p1_defs sampleParse_def js_def trim_def isWhiteSpace_def)
  have ne: \<open>incoming (scannedObject sampleParse (js ''{"name":"Ann","deviceId":"d1"}''))
      (js ''deviceId'') \<noteq> Some (deviceIdRef (run_p1 sampleCollator sampleParse
         [(1000, Scan1 (js ''{"name":"Ann","deviceId":"d1"}'')), (3000, TypeName1 [])]
         (mounted_p1 (js ''scanner-1'') emptyStorage)))\<close>
    unfolding i d by (simp add: js_def)
  note c9 = C9_records_carry_scanner_device_id
      [where freshId = \<open>js ''scanner-1''\<close>
         and evs = \<open>[(1000, Scan1 (js ''{"name":"Ann","deviceId":"d1"}'')), (3000, TypeName1 [])]\<close>
         and coll = sampleCollator
         and P = sampleParse and now = 3001 and raw = \<open>js ''{"name":"Ann","deviceId":"d1"}''\<close>]
  from c9 f l ne have \<open>fst (handleDecode_p1 sampleCollator sampleParse 3001
        (js ''{"name":"Ann","deviceId":"d1"}'')
        (run_p1 sampleCollator sampleParse
           [(1000, Scan1 (js ''{"name":"Ann","deviceId":"d1"}'')), (3000, TypeName1 [])]
           (mounted_p1 (js ''scanner-1'') emptyStorage))) \<noteq> Rejected_DuplicateDevice\<close>
    by blast
  with f l e i show ?thesis by simp
qed

end
